theory Spec2Isabelle
  imports Complex_Main "HOL-Library.Product_Lexorder" "HOL-Library.Multiset"
begin

section \<open>Historical Rate Explorer: the loader and the view derivations of app.py\<close>

text \<open>
  The program is one script: \<open>load_csv_auto\<close> and the body of \<open>main\<close>, which loads a
  table, picks the value column, filters it by a date range and derives a chart series,
  a rolling mean, quick statistics and a monthly mean from the filtered view. Each step
  of \<open>main\<close> is a definition of its own, named \<open>main_...\<close>; each call into the
  tabular-data library is a definition named after the method it stands for and follows
  that method's documented behaviour, or is a parameter where the result is the
  library's own computation (parsing, date conversion, floating-point aggregates,
  export).
\<close>

subsection \<open>Errors\<close>

text \<open>
  An exception is its class name with its message. \<open>Reported\<close> is the way \<open>main\<close>
  ends a request on a failure it handles itself: \<open>st.error(msg)\<close> followed by
  \<open>return\<close>.
\<close>

datatype error = Raised string string | Reported string

definition quoted :: "string \<Rightarrow> string" where
  \<comment> \<open>the message of a \<open>KeyError\<close>: the key between single quotes\<close>
  "quoted k = [CHR 0x27] @ k @ [CHR 0x27]"

definition then_do :: "error + 'a \<Rightarrow> ('a \<Rightarrow> error + 'b) \<Rightarrow> error + 'b" where
  \<comment> \<open>statement sequencing: the first exception ends the computation\<close>
  "then_do r f = (case r of Inl e \<Rightarrow> Inl e | Inr x \<Rightarrow> f x)"

subsection \<open>Text: characters, lines, trimming, lower case\<close>

text \<open>
  A text is a list of characters, each a code point below 256. \<open>is_linebreak\<close> are the
  line boundaries of \<open>str.splitlines\<close> in that range, \<open>is_space\<close> the characters
  \<open>str.strip\<close> removes, and \<open>lower_char\<close> is \<open>str.lower\<close> on one character.
\<close>

definition is_linebreak :: "char \<Rightarrow> bool" where
  "is_linebreak c \<longleftrightarrow>
     c \<in> set [CHR 0x0A, CHR 0x0B, CHR 0x0C, CHR 0x0D, CHR 0x1C, CHR 0x1D, CHR 0x1E, CHR 0x85]"

definition is_space :: "char \<Rightarrow> bool" where
  "is_space c \<longleftrightarrow>
     c \<in> set [CHR 0x09, CHR 0x0A, CHR 0x0B, CHR 0x0C, CHR 0x0D, CHR 0x1C, CHR 0x1D, CHR 0x1E,
              CHR 0x1F, CHR 0x20, CHR 0x85, CHR 0xA0]"

definition upper_chars :: string where
  "upper_chars = ''ABCDEFGHIJKLMNOPQRSTUVWXYZ'' @
     [CHR 0xC0, CHR 0xC1, CHR 0xC2, CHR 0xC3, CHR 0xC4, CHR 0xC5, CHR 0xC6, CHR 0xC7,
      CHR 0xC8, CHR 0xC9, CHR 0xCA, CHR 0xCB, CHR 0xCC, CHR 0xCD, CHR 0xCE, CHR 0xCF,
      CHR 0xD0, CHR 0xD1, CHR 0xD2, CHR 0xD3, CHR 0xD4, CHR 0xD5, CHR 0xD6, CHR 0xD8,
      CHR 0xD9, CHR 0xDA, CHR 0xDB, CHR 0xDC, CHR 0xDD, CHR 0xDE]"

definition lower_chars :: string where
  "lower_chars = ''abcdefghijklmnopqrstuvwxyz'' @
     [CHR 0xE0, CHR 0xE1, CHR 0xE2, CHR 0xE3, CHR 0xE4, CHR 0xE5, CHR 0xE6, CHR 0xE7,
      CHR 0xE8, CHR 0xE9, CHR 0xEA, CHR 0xEB, CHR 0xEC, CHR 0xED, CHR 0xEE, CHR 0xEF,
      CHR 0xF0, CHR 0xF1, CHR 0xF2, CHR 0xF3, CHR 0xF4, CHR 0xF5, CHR 0xF6, CHR 0xF8,
      CHR 0xF9, CHR 0xFA, CHR 0xFB, CHR 0xFC, CHR 0xFD, CHR 0xFE]"

definition lower_char :: "char \<Rightarrow> char" where
  "lower_char c = (case map_of (zip upper_chars lower_chars) c of Some l \<Rightarrow> l | None \<Rightarrow> c)"

definition lower :: "string \<Rightarrow> string" where
  "lower s = map lower_char s"

definition strip :: "string \<Rightarrow> string" where
  "strip s = rev (dropWhile is_space (rev (dropWhile is_space s)))"

definition startswith :: "string \<Rightarrow> string \<Rightarrow> bool" where
  "startswith s p \<longleftrightarrow> take (length p) s = p"

text \<open>
  \<open>str.splitlines\<close>: a line ends at a line boundary, carriage return followed by line
  feed is one boundary, the boundaries are not kept, and a text that ends in a boundary
  has no empty last line. \<open>cur\<close> is the line read so far.
\<close>

fun splitlines_from :: "string \<Rightarrow> string \<Rightarrow> string list" where
  "splitlines_from cur [] = (if cur = [] then [] else [cur])"
| "splitlines_from cur (c # cs) =
     (if c = CHR 0x0D \<and> cs \<noteq> [] \<and> hd cs = CHR 0x0A then cur # splitlines_from [] (tl cs)
      else if is_linebreak c then cur # splitlines_from [] cs
      else splitlines_from (cur @ [c]) cs)"

definition splitlines :: "string \<Rightarrow> string list" where
  "splitlines s = splitlines_from [] s"

fun join_lines :: "string list \<Rightarrow> string" where
  \<comment> \<open>\<open>"\n".join(lines)\<close>\<close>
  "join_lines [] = []"
| "join_lines [l] = l"
| "join_lines (l # ls) = l @ [CHR 0x0A] @ join_lines ls"

subsection \<open>The header search (lines 18 to 22, and 78 to 82)\<close>

definition is_header :: "string \<Rightarrow> bool" where
  \<comment> \<open>\<open>line.strip().lower().startswith("date,")\<close>\<close>
  "is_header line \<longleftrightarrow> startswith (lower (strip line)) ''date,''"

fun find_header :: "string list \<Rightarrow> nat \<Rightarrow> nat option" where
  \<comment> \<open>the \<open>for i, line in enumerate(lines)\<close> loop with its \<open>break\<close>; \<open>i\<close> counts the lines passed\<close>
  "find_header [] i = None"
| "find_header (line # rest) i = (if is_header line then Some i else find_header rest (Suc i))"

subsection \<open>Calendar dates and timestamps\<close>

text \<open>
  A calendar date is (year, month, day); Python compares dates field by field in this
  order, which is the lexicographic order on the triple. A timestamp is a date with the
  nanoseconds elapsed since midnight.
\<close>

type_synonym date = "int \<times> nat \<times> nat"
type_synonym timestamp = "date \<times> nat"

definition pd_to_datetime :: "date \<Rightarrow> timestamp" where
  \<comment> \<open>\<open>pd.to_datetime\<close> of a \<open>datetime.date\<close>: midnight of that day\<close>
  "pd_to_datetime d = (d, 0)"

definition dt_date :: "timestamp \<Rightarrow> date" where
  \<comment> \<open>\<open>.dt.date\<close>: the time of day is dropped\<close>
  "dt_date t = fst t"

subsection \<open>Data frames\<close>

text \<open>
  A frame is held column by column, as the library holds it. A cell is a timestamp, a
  \<open>datetime.date\<close> object, a number, a text or a missing entry; a column has a name,
  the element type the library gave it, and its cells. The index is the default
  \<open>RangeIndex\<close>, a list of positions (what a default index becomes once the rows are
  reordered), or a named list of labels with their element type.
\<close>

datatype dtype = Int64 | Float64 | Bool | Datetime64 | Object

datatype cell = Timestamp timestamp | DateObj date | Number rat | Text string | NA

datatype index = RangeIndex | Positions "nat list" | Labels string dtype "cell list"

record column =
  cname :: string
  dtype :: dtype
  cells :: "cell list"

record frame =
  index :: index
  cols :: "column list"

definition column_names :: "frame \<Rightarrow> string list" where
  \<comment> \<open>\<open>df.columns\<close>\<close>
  "column_names df = map cname (cols df)"

definition strip_columns :: "frame \<Rightarrow> frame" where
  \<comment> \<open>\<open>df.columns = [c.strip() for c in df.columns]\<close>\<close>
  "strip_columns df = df\<lparr>cols := map (\<lambda>c. c\<lparr>cname := strip (cname c)\<rparr>) (cols df)\<rparr>"

definition columns_named :: "string \<Rightarrow> frame \<Rightarrow> column list" where
  "columns_named name df = filter (\<lambda>c. cname c = name) (cols df)"

text \<open>
  \<open>df["Date"] = pd.to_datetime(df["Date"]).dt.date\<close>. With no column of that name the
  lookup raises \<open>KeyError\<close>; with several, the lookup gives a frame and
  \<open>pd.to_datetime\<close> raises \<open>ValueError\<close>. The conversion of the cells to timestamps is
  the library's and is a parameter, \<open>to_datetime\<close>; it either raises or gives the
  timestamps (missing dates are outside the model). The column then holds date objects.
\<close>

definition assign_date ::
  "(cell list \<Rightarrow> error + timestamp list) \<Rightarrow> frame \<Rightarrow> error + frame" where
  "assign_date to_datetime df =
     (case columns_named ''Date'' df of
        [] \<Rightarrow> Inl (Raised ''KeyError'' (quoted ''Date''))
      | [c] \<Rightarrow>
          then_do (to_datetime (cells c)) (\<lambda>ts.
            Inr (df\<lparr>cols := map (\<lambda>c. if cname c = ''Date''
                                       then c\<lparr>dtype := Object, cells := map (DateObj \<circ> dt_date) ts\<rparr>
                                       else c) (cols df)\<rparr>))
      | _ \<Rightarrow> Inl (Raised ''ValueError'' ''cannot assemble with duplicate keys''))"

text \<open>
  Sorting is by position: \<open>argsort\<close> gives the positions of the rows in ascending order
  of their dates, and \<open>take_rows\<close> reorders the index and every column by them. The
  order among rows of equal date is the library's choice; the model takes the stable
  one, and the general facts below do not depend on it. The loaders call
  \<open>sort_values\<close>, \<open>set_index\<close> and \<open>sort_index\<close> only after \<open>assign_date\<close> has
  succeeded, that is on a frame with exactly one \<open>Date\<close> column, of date objects; the
  other branches of these definitions make them total and are not reached.
\<close>

fun cell_dates :: "cell list \<Rightarrow> date list option" where
  "cell_dates [] = Some []"
| "cell_dates (DateObj d # cs) = map_option (\<lambda>ds. d # ds) (cell_dates cs)"
| "cell_dates (_ # cs) = None"

definition argsort :: "date list \<Rightarrow> nat list" where
  "argsort ds = sort_key (\<lambda>i. ds ! i) [0..<length ds]"

definition take_cells :: "nat list \<Rightarrow> 'a list \<Rightarrow> 'a list" where
  "take_cells order xs = map (\<lambda>i. xs ! i) order"

fun take_index :: "nat list \<Rightarrow> index \<Rightarrow> index" where
  "take_index order RangeIndex = Positions order"
| "take_index order (Positions ps) = Positions (take_cells order ps)"
| "take_index order (Labels name t ls) = Labels name t (take_cells order ls)"

definition take_rows :: "nat list \<Rightarrow> frame \<Rightarrow> frame" where
  "take_rows order df =
     \<lparr>index = take_index order (index df),
      cols = map (\<lambda>c. c\<lparr>cells := take_cells order (cells c)\<rparr>) (cols df)\<rparr>"

definition sort_values :: "string \<Rightarrow> frame \<Rightarrow> error + frame" where
  \<comment> \<open>\<open>df.sort_values(name)\<close> on a column of date objects\<close>
  "sort_values name df =
     (case columns_named name df of
        [] \<Rightarrow> Inl (Raised ''KeyError'' (quoted name))
      | [c] \<Rightarrow> (case cell_dates (cells c) of
                  Some ds \<Rightarrow> Inr (take_rows (argsort ds) df)
                | None \<Rightarrow> Inl (Raised ''TypeError'' ''unorderable cells''))
      | _ \<Rightarrow> Inl (Raised ''ValueError'' ''The column label is not unique.''))"

definition set_index :: "string \<Rightarrow> frame \<Rightarrow> error + frame" where
  \<comment> \<open>\<open>df.set_index(name)\<close>: the column becomes the index and leaves the columns\<close>
  "set_index name df =
     (case columns_named name df of
        [] \<Rightarrow> Inl (Raised ''KeyError'' (quoted name))
      | [c] \<Rightarrow> Inr \<lparr>index = Labels name (dtype c) (cells c),
                   cols = filter (\<lambda>c. cname c \<noteq> name) (cols df)\<rparr>
      | _ \<Rightarrow> Inl (Raised ''ValueError'' ''duplicate index column''))"

definition sort_index :: "frame \<Rightarrow> error + frame" where
  \<comment> \<open>\<open>df.sort_index()\<close>\<close>
  "sort_index df =
     (case index df of
        RangeIndex \<Rightarrow> Inr df
      | Positions ps \<Rightarrow> Inr (take_rows (sort_key (\<lambda>i. ps ! i) [0..<length ps]) df)
      | Labels name t ls \<Rightarrow>
          (case cell_dates ls of
             Some ds \<Rightarrow> Inr (take_rows (argsort ds) df)
           | None \<Rightarrow> Inl (Raised ''TypeError'' ''unorderable cells'')))"

subsection \<open>The loaders\<close>

text \<open>
  \<open>read_csv\<close> stands for \<open>pd.read_csv(\<dots>, parse_dates=[0])\<close>: the library's parser,
  a parameter of the loaders, which raises or gives a frame with the default index.
  \<open>load_csv_auto\<close> is the function of that name, applied to the text of the file.
\<close>

type_synonym reader = "string \<Rightarrow> error + frame"
type_synonym converter = "cell list \<Rightarrow> error + timestamp list"

definition load_csv_auto :: "reader \<Rightarrow> converter \<Rightarrow> string \<Rightarrow> error + frame" where
  "load_csv_auto read_csv to_datetime text =
     (let lines = splitlines text in
      case find_header lines 0 of
        None \<Rightarrow> then_do (read_csv text) (\<lambda>df. Inr (strip_columns df))
      | Some header_idx \<Rightarrow>
          then_do (read_csv (join_lines (drop header_idx lines))) (\<lambda>df.
            let df = strip_columns df in
            if ''Date'' \<in> set (column_names df)
            then then_do (assign_date to_datetime df) (\<lambda>df.
                 then_do (sort_values ''Date'' df) (\<lambda>df.
                 set_index ''Date'' df))
            else Inr df))"

text \<open>
  The loader of an uploaded file is the \<open>try\<close> block of \<open>main\<close> (lines 75 to 97): any
  exception inside it is reported as \<open>Failed to parse uploaded CSV: \<dots>\<close> and ends the
  request.
\<close>

definition report_failure :: "error + 'a \<Rightarrow> error + 'a" where
  "report_failure r =
     (case r of
        Inl (Raised cls msg) \<Rightarrow> Inl (Reported (''Failed to parse uploaded CSV: '' @ msg))
      | Inl (Reported msg) \<Rightarrow> Inl (Reported msg)
      | Inr x \<Rightarrow> Inr x)"

definition main_load_uploaded :: "reader \<Rightarrow> converter \<Rightarrow> string \<Rightarrow> error + frame" where
  "main_load_uploaded read_csv to_datetime content =
     report_failure
       (let lines = splitlines content in
        case find_header lines 0 of
          None \<Rightarrow>
            then_do (read_csv content) (\<lambda>df.
              let df = strip_columns df in
              if ''Date'' \<in> set (column_names df)
              then then_do (assign_date to_datetime df) (\<lambda>df.
                   then_do (set_index ''Date'' df) sort_index)
              else Inr df)
        | Some header_idx \<Rightarrow>
            then_do (read_csv (join_lines (drop header_idx lines))) (\<lambda>df.
            then_do (assign_date to_datetime (strip_columns df)) (\<lambda>df.
            then_do (set_index ''Date'' df) sort_index)))"

subsection \<open>The value column (lines 104 to 110 of main)\<close>

definition select_dtypes_number :: "frame \<Rightarrow> string list" where
  \<comment> \<open>\<open>df.select_dtypes(include=[np.number]).columns.tolist()\<close>\<close>
  "select_dtypes_number df = map cname (filter (\<lambda>c. dtype c \<in> {Int64, Float64}) (cols df))"

definition rename_column :: "string \<Rightarrow> string \<Rightarrow> frame \<Rightarrow> frame" where
  \<comment> \<open>\<open>df.rename(columns={old: new})\<close>\<close>
  "rename_column old new df =
     df\<lparr>cols := map (\<lambda>c. if cname c = old then c\<lparr>cname := new\<rparr> else c) (cols df)\<rparr>"

definition no_numeric_message :: string where
  \<comment> \<open>\<open>"No numeric 'Value' column found in data."\<close>\<close>
  "no_numeric_message = ''No numeric '' @ quoted ''Value'' @ '' column found in data.''"

definition main_select_value :: "frame \<Rightarrow> error + frame" where
  "main_select_value df =
     (if ''Value'' \<in> set (column_names df) then Inr df
      else case select_dtypes_number df of
             [] \<Rightarrow> Inl (Reported no_numeric_message)
           | first_numeric # _ \<Rightarrow> Inr (rename_column first_numeric ''Value'' df))"

subsection \<open>The view filter (lines 114 to 118 of main)\<close>

text \<open>
  \<open>mask = (pd.to_datetime(df.index) >= pd.to_datetime(start)) &
          (pd.to_datetime(df.index) <= pd.to_datetime(end))\<close> and
  \<open>df_view = df.loc[mask]\<close>. A row is its index label with its payload.
\<close>

definition index_ge :: "timestamp list \<Rightarrow> timestamp \<Rightarrow> bool list" where
  "index_ge idx t = map (\<lambda>x. t \<le> x) idx"

definition index_le :: "timestamp list \<Rightarrow> timestamp \<Rightarrow> bool list" where
  "index_le idx t = map (\<lambda>x. x \<le> t) idx"

definition mask_and :: "bool list \<Rightarrow> bool list \<Rightarrow> bool list" where
  "mask_and a b = map (\<lambda>(p, q). p \<and> q) (zip a b)"

definition loc_mask :: "'a list \<Rightarrow> bool list \<Rightarrow> 'a list" where
  \<comment> \<open>\<open>df.loc[mask]\<close> with a boolean mask as long as the frame: the rows marked True, in order\<close>
  "loc_mask rows m = map fst (filter snd (zip rows m))"

definition main_filter :: "date \<Rightarrow> date \<Rightarrow> (date \<times> 'a) list \<Rightarrow> (date \<times> 'a) list" where
  "main_filter start_date end_date rows =
     (let idx = map (pd_to_datetime \<circ> fst) rows;
          m = mask_and (index_ge idx (pd_to_datetime start_date))
                          (index_le idx (pd_to_datetime end_date))
      in loc_mask rows m)"

subsection \<open>Concrete inputs\<close>

text \<open>
  Instances of the two library parameters, for running the loaders on concrete texts.
  \<open>timestamps_of\<close> converts cells that hold a timestamp or a date and raises on any
  other cell. \<open>example_read_csv\<close> gives, for four texts, the frame the parser builds
  from them (first column parsed as dates, second as floats, rows in file order), and
  raises on every other text.
\<close>

fun timestamps_of :: "cell list \<Rightarrow> error + timestamp list" where
  "timestamps_of [] = Inr []"
| "timestamps_of (Timestamp t # cs) = then_do (timestamps_of cs) (\<lambda>ts. Inr (t # ts))"
| "timestamps_of (DateObj d # cs) = then_do (timestamps_of cs) (\<lambda>ts. Inr (pd_to_datetime d # ts))"
| "timestamps_of (_ # cs) = Inl (Raised ''ValueError'' ''not a date'')"

definition day :: "int \<Rightarrow> nat \<Rightarrow> nat \<Rightarrow> cell" where
  "day y m d = Timestamp ((y, m, d), 0)"

definition parsed :: "string \<Rightarrow> cell list \<Rightarrow> rat list \<Rightarrow> frame" where
  "parsed date_name ds vs =
     \<lparr>index = RangeIndex,
      cols = [\<lparr>cname = date_name, dtype = Datetime64, cells = ds\<rparr>,
              \<lparr>cname = ''Value'', dtype = Float64, cells = map Number vs\<rparr>]\<rparr>"

definition example_read_csv :: reader where
  "example_read_csv t =
     (if t = ''Date,Value\<newline>2020-01-01,1.5\<newline>2020-01-02,2.5''
      then Inr (parsed ''Date'' [day 2020 1 1, day 2020 1 2] [3/2, 5/2])
      else if t = ''Date,Value\<newline>2020-01-02,2.0\<newline>2020-01-01,1.0\<newline>2020-01-02,3.0''
      then Inr (parsed ''Date'' [day 2020 1 2, day 2020 1 1, day 2020 1 2] [2, 1, 3])
      else if t = ''date,Value\<newline>2020-01-02,2.0\<newline>2020-01-01,1.0''
      then Inr (parsed ''date'' [day 2020 1 2, day 2020 1 1] [2, 1])
      else if t = ''Date ,Value\<newline>2020-01-02,2.0\<newline>2020-01-01,1.0\<newline>''
      then Inr (parsed ''Date '' [day 2020 1 2, day 2020 1 1] [2, 1])
      else Inl (Raised ''ParserError'' t))"

subsection \<open>Float64 values\<close>

text \<open>
  The values of a numeric column are 64-bit floating-point numbers. A finite one is
  given by the rational number it denotes; the negative zero, the two infinities and
  not-a-number are values of their own, and \<open>Finite 0\<close> is the positive zero. An
  arithmetic operation gives the exact result rounded to the nearest float, ties to the
  even significand: \<open>round_double\<close> rounds a rational to a significand of 53 bits, with
  the exponent bounded below (subnormal numbers), and \<open>to_double\<close> maps a result of
  magnitude \<open>2 ^ 1024\<close> or more to an infinity and gives a zero result its sign.
\<close>

datatype fval = Finite rat | NegZero | PosInf | NegInf | NaN

fun bit_length :: "nat \<Rightarrow> nat" where
  \<comment> \<open>the number of binary digits of a natural number\<close>
  "bit_length n = (if n = 0 then 0 else Suc (bit_length (n div 2)))"

declare bit_length.simps [simp del]

definition floor_log2 :: "rat \<Rightarrow> int" where
  \<comment> \<open>for \<open>a > 0\<close>: the \<open>k\<close> with \<open>2 ^ k \<le> a < 2 ^ (k + 1)\<close>\<close>
  "floor_log2 a =
     (if 1 \<le> a then int (bit_length (nat \<lfloor>a\<rfloor>)) - 1
      else - int (bit_length (nat (\<lceil>1 / a\<rceil> - 1))))"

definition pow2 :: "int \<Rightarrow> rat" where
  "pow2 e = (if 0 \<le> e then 2 ^ nat e else 1 / 2 ^ nat (- e))"

definition round_half_even :: "rat \<Rightarrow> int" where
  "round_half_even x =
     (if x - of_int \<lfloor>x\<rfloor> < 1 / 2 then \<lfloor>x\<rfloor>
      else if 1 / 2 < x - of_int \<lfloor>x\<rfloor> then \<lfloor>x\<rfloor> + 1
      else if even \<lfloor>x\<rfloor> then \<lfloor>x\<rfloor> else \<lfloor>x\<rfloor> + 1)"

definition double_exponent :: "rat \<Rightarrow> int" where
  \<comment> \<open>the exponent of the last bit of the significand: 53 bits, and at least \<open>-1074\<close>\<close>
  "double_exponent a = max (floor_log2 a - 52) (- 1074)"

definition round_double :: "rat \<Rightarrow> rat" where
  "round_double q =
     (if q = 0 then 0
      else sgn q * of_int (round_half_even (\<bar>q\<bar> / pow2 (double_exponent \<bar>q\<bar>)))
             * pow2 (double_exponent \<bar>q\<bar>))"

definition to_double :: "bool \<Rightarrow> rat \<Rightarrow> fval" where
  \<comment> \<open>\<open>negative\<close> is the sign that an exact zero gets\<close>
  "to_double negative q =
     (if round_double q = 0 then (if q < 0 \<or> (q = 0 \<and> negative) then NegZero else Finite 0)
      else if 2 ^ 1024 \<le> \<bar>round_double q\<bar> then (if 0 < q then PosInf else NegInf)
      else Finite (round_double q))"

fun is_negative :: "fval \<Rightarrow> bool" where
  "is_negative (Finite q) = (q < 0)"
| "is_negative NegZero = True"
| "is_negative NegInf = True"
| "is_negative PosInf = False"
| "is_negative NaN = False"

fun is_inf :: "fval \<Rightarrow> bool" where
  "is_inf PosInf = True"
| "is_inf NegInf = True"
| "is_inf _ = False"

fun is_finite :: "fval \<Rightarrow> bool" where
  "is_finite (Finite q) = True"
| "is_finite NegZero = True"
| "is_finite _ = False"

fun rat_of :: "fval \<Rightarrow> rat" where
  \<comment> \<open>the number a finite value denotes\<close>
  "rat_of (Finite q) = q"
| "rat_of _ = 0"

definition is_zero :: "fval \<Rightarrow> bool" where
  "is_zero x \<longleftrightarrow> is_finite x \<and> rat_of x = 0"

definition signed_inf :: "bool \<Rightarrow> fval" where
  "signed_inf negative = (if negative then NegInf else PosInf)"

definition signed_zero :: "bool \<Rightarrow> fval" where
  "signed_zero negative = (if negative then NegZero else Finite 0)"

definition fdiv :: "fval \<Rightarrow> fval \<Rightarrow> fval" where
  "fdiv x y =
     (if x = NaN \<or> y = NaN then NaN
      else if is_inf x then (if is_inf y then NaN else signed_inf (is_negative x \<noteq> is_negative y))
      else if is_inf y then signed_zero (is_negative x \<noteq> is_negative y)
      else if is_zero y
           then (if is_zero x then NaN else signed_inf (is_negative x \<noteq> is_negative y))
      else to_double (is_negative x \<noteq> is_negative y) (rat_of x / rat_of y))"

definition fmul :: "fval \<Rightarrow> fval \<Rightarrow> fval" where
  "fmul x y =
     (if x = NaN \<or> y = NaN then NaN
      else if is_inf x \<or> is_inf y
           then (if is_zero x \<or> is_zero y then NaN
                 else signed_inf (is_negative x \<noteq> is_negative y))
      else to_double (is_negative x \<noteq> is_negative y) (rat_of x * rat_of y))"

definition fadd :: "fval \<Rightarrow> fval \<Rightarrow> fval" where
  "fadd x y =
     (if x = NaN \<or> y = NaN then NaN
      else if is_inf x then (if is_inf y \<and> is_negative x \<noteq> is_negative y then NaN else x)
      else if is_inf y then y
      else to_double (is_negative x \<and> is_negative y) (rat_of x + rat_of y))"

fun fneg :: "fval \<Rightarrow> fval" where
  "fneg (Finite q) = (if q = 0 then NegZero else Finite (- q))"
| "fneg NegZero = Finite 0"
| "fneg PosInf = NegInf"
| "fneg NegInf = PosInf"
| "fneg NaN = NaN"

definition fsub :: "fval \<Rightarrow> fval \<Rightarrow> fval" where
  "fsub x y = fadd x (fneg y)"

subsection \<open>The view of a frame (lines 114 to 118 of main, on the frame)\<close>

text \<open>
  \<open>main_view\<close> is the filter on the loaded frame itself. \<open>pd.to_datetime(df.index)\<close>
  is the converter of the loaders applied to the labels of the index; the default index
  has the row positions as labels. \<open>df.loc[mask]\<close> keeps the marked rows of the index
  and of every column, so the view has an index of the same kind as the frame.
  \<open>opts["date_range"]\<close> is taken to hold two dates.
\<close>

record opts =
  date_range :: "date \<times> date"
  show_table :: bool
  chart_type :: string
  smoothing :: bool
  rolling_window :: "nat option"
  resample_freq :: string
  show_hist :: bool
  show_box :: bool

definition nrows :: "frame \<Rightarrow> nat" where
  "nrows df = (case cols df of [] \<Rightarrow> 0 | c # _ \<Rightarrow> length (cells c))"

definition index_cells :: "frame \<Rightarrow> cell list" where
  \<comment> \<open>the labels of \<open>df.index\<close>\<close>
  "index_cells df =
     (case index df of
        RangeIndex \<Rightarrow> map (\<lambda>i. Number (of_nat i)) [0..<nrows df]
      | Positions ps \<Rightarrow> map (\<lambda>i. Number (of_nat i)) ps
      | Labels name t ls \<Rightarrow> ls)"

fun loc_index :: "bool list \<Rightarrow> index \<Rightarrow> index" where
  "loc_index m RangeIndex = Positions (loc_mask [0..<length m] m)"
| "loc_index m (Positions ps) = Positions (loc_mask ps m)"
| "loc_index m (Labels name t ls) = Labels name t (loc_mask ls m)"

definition loc_frame :: "bool list \<Rightarrow> frame \<Rightarrow> frame" where
  \<comment> \<open>\<open>df.loc[mask]\<close>\<close>
  "loc_frame m df =
     \<lparr>index = loc_index m (index df),
      cols = map (\<lambda>c. c\<lparr>cells := loc_mask (cells c) m\<rparr>) (cols df)\<rparr>"

definition main_view :: "converter \<Rightarrow> opts \<Rightarrow> frame \<Rightarrow> error + frame" where
  "main_view to_datetime options df =
     (case date_range options of
        (start_date, end_date) \<Rightarrow>
          then_do (to_datetime (index_cells df)) (\<lambda>idx.
            Inr (loc_frame (mask_and (index_ge idx (pd_to_datetime start_date))
                                     (index_le idx (pd_to_datetime end_date))) df)))"

subsection \<open>The value series of a view\<close>

text \<open>
  \<open>df_view["Value"]\<close> is the column of that name. As a series of floats, a cell that
  holds a number is that number and a missing cell is not-a-number; a numeric column
  holds nothing else. The numeric steps raise on a column that is not numeric, and on
  several columns of the name, where the lookup gives a frame; the class and the
  message of these exceptions depend on the step, and no statement below depends on
  them.
\<close>

definition getitem :: "string \<Rightarrow> frame \<Rightarrow> error + column" where
  "getitem name df =
     (case columns_named name df of
        [] \<Rightarrow> Inl (Raised ''KeyError'' (quoted name))
      | [c] \<Rightarrow> Inr c
      | _ \<Rightarrow> Inl (Raised ''TypeError'' ''several columns of one name''))"

definition is_numeric :: "column \<Rightarrow> bool" where
  "is_numeric c \<longleftrightarrow> dtype c \<in> {Int64, Float64}"

fun cell_float :: "cell \<Rightarrow> fval" where
  "cell_float (Number q) = Finite q"
| "cell_float _ = NaN"

subsection \<open>The library\<close>

text \<open>
  Three more computations of the library are parameters: the bucket means that
  \<open>resample(freq).mean()\<close> gives on a frame whose index holds timestamps; the float that
  \<open>rolling(window, min_periods).mean()\<close> computes at a position of a series, from the
  series, the window and the position; and the text that \<open>to_csv\<close> writes.
\<close>

record library =
  resample_mean :: "string \<Rightarrow> frame \<Rightarrow> error + frame"
  rolling_value :: "fval list \<Rightarrow> nat \<Rightarrow> nat \<Rightarrow> fval"
  to_csv :: "frame \<Rightarrow> string"

subsection \<open>Resampling (lines 125 to 126, and line 165)\<close>

text \<open>
  \<open>resample\<close> accepts a frame only when its index holds timestamps, a
  \<open>DatetimeIndex\<close>; on an index of any other element type it raises \<open>TypeError\<close>.
\<close>

fun index_dtype :: "index \<Rightarrow> dtype" where
  "index_dtype RangeIndex = Int64"
| "index_dtype (Positions ps) = Int64"
| "index_dtype (Labels name t ls) = t"

definition resample_type_error :: string where
  \<comment> \<open>the message goes on to name the class of the index\<close>
  "resample_type_error = ''Only valid with DatetimeIndex, TimedeltaIndex or PeriodIndex''"

definition pd_resample_mean :: "library \<Rightarrow> string \<Rightarrow> frame \<Rightarrow> error + frame" where
  "pd_resample_mean lib freq df =
     (if index_dtype (index df) = Datetime64 then resample_mean lib freq df
      else Inl (Raised ''TypeError'' resample_type_error))"

definition main_monthly :: "library \<Rightarrow> frame \<Rightarrow> error + frame" where
  \<comment> \<open>line 165: \<open>monthly = df_view.resample("M").mean()\<close>\<close>
  "main_monthly lib df_view = pd_resample_mean lib ''M'' df_view"

subsection \<open>The rolling mean and the time series section (lines 122 to 138 of main)\<close>

text \<open>
  \<open>rolling(window, min_periods).mean()\<close> with an integer window: the window at position
  \<open>i\<close> holds the values at the positions \<open>i - window + 1\<close> to \<open>i\<close> that exist. The
  result there is the float the library computes when the window holds at least
  \<open>min_periods\<close> observations, that is finite values, and is not-a-number otherwise.
\<close>

definition window_at :: "nat \<Rightarrow> 'a list \<Rightarrow> nat \<Rightarrow> 'a list" where
  "window_at w xs i = drop (Suc i - w) (take (Suc i) xs)"

definition pd_rolling_mean ::
  "(fval list \<Rightarrow> nat \<Rightarrow> nat \<Rightarrow> fval) \<Rightarrow> nat \<Rightarrow> nat \<Rightarrow> fval list \<Rightarrow> fval list" where
  "pd_rolling_mean value_at window min_periods xs =
     map (\<lambda>i. if min_periods \<le> length (filter is_finite (window_at window xs i))
               then value_at xs window i else NaN) [0..<length xs]"

definition numeric_values :: "frame \<Rightarrow> error + fval list" where
  "numeric_values df_view =
     then_do (getitem ''Value'' df_view) (\<lambda>c.
       if is_numeric c then Inr (map cell_float (cells c))
       else Inl (Raised ''DataError'' ''No numeric types to aggregate''))"

definition main_rolling :: "library \<Rightarrow> opts \<Rightarrow> frame \<Rightarrow> error + fval list option" where
  \<comment> \<open>lines 136 to 138: the overlay, when \<open>opts["smoothing"] and opts["rolling_window"]\<close>\<close>
  "main_rolling lib options df_view =
     (case rolling_window options of
        None \<Rightarrow> Inr None
      | Some w \<Rightarrow>
          if smoothing options \<and> w \<noteq> 0
          then then_do (numeric_values df_view) (\<lambda>vals.
                 Inr (Some (pd_rolling_mean (rolling_value lib) w 1 vals)))
          else Inr None)"

definition main_time_series ::
  "library \<Rightarrow> opts \<Rightarrow> frame \<Rightarrow> error + frame \<times> fval list option" where
  \<comment> \<open>the frame that is plotted, and the overlay\<close>
  "main_time_series lib options df_view =
     then_do (if resample_freq options \<noteq> ''None''
              then pd_resample_mean lib (resample_freq options) df_view
              else Inr df_view) (\<lambda>plot_df.
     then_do (main_rolling lib options df_view) (\<lambda>rolling.
       Inr (plot_df, rolling)))"

subsection \<open>Quick stats (lines 156 to 164 of main)\<close>

text \<open>
  \<open>pct_change()\<close>, by its default, fills a missing value with the last value before it, then divides
  each value by the one before it and subtracts one; its first entry is not-a-number.
  \<open>main_quick_stats\<close> is the computation on the rows of the view, each the label of
  the index with the float of the \<open>Value\<close> column; \<open>main_quick_stats_view\<close> reads the
  rows off the frame, where line 157 comes before the first numeric step.
\<close>

definition iloc_last :: "'a list \<Rightarrow> error + 'a" where
  \<comment> \<open>\<open>.iloc[-1]\<close>\<close>
  "iloc_last xs =
     (if xs = [] then Inl (Raised ''IndexError'' ''single positional indexer is out-of-bounds'')
      else Inr (last xs))"

fun ffill_from :: "fval \<Rightarrow> fval list \<Rightarrow> fval list" where
  "ffill_from previous [] = []"
| "ffill_from previous (x # xs) =
     (if x = NaN then previous # ffill_from previous xs else x # ffill_from x xs)"

definition ffill :: "fval list \<Rightarrow> fval list" where
  "ffill xs = ffill_from NaN xs"

definition pct_change :: "fval list \<Rightarrow> fval list" where
  "pct_change xs =
     (case ffill xs of
        [] \<Rightarrow> []
      | y # ys \<Rightarrow>
          NaN # map (\<lambda>(previous, current). fsub (fdiv current previous) (Finite 1))
                  (zip (y # ys) ys))"

record stats =
  last_value :: fval
  percent_change :: fval
  row_count :: nat

definition main_quick_stats :: "('l \<times> fval) list \<Rightarrow> error + stats" where
  "main_quick_stats df_view =
     then_do (iloc_last (map snd df_view)) (\<lambda>last_v.
     then_do (iloc_last (pct_change (map snd df_view))) (\<lambda>change.
       Inr \<lparr>last_value = last_v, percent_change = fmul change (Finite 100),
            row_count = length df_view\<rparr>))"

definition main_quick_stats_view :: "frame \<Rightarrow> error + stats" where
  "main_quick_stats_view df_view =
     then_do (getitem ''Value'' df_view) (\<lambda>c.
       if cells c = []
       then Inl (Raised ''IndexError'' ''single positional indexer is out-of-bounds'')
       else if \<not> is_numeric c
       then Inl (Raised ''TypeError'' ''unsupported operand type'')
       else main_quick_stats (zip (index_cells df_view) (map cell_float (cells c))))"

subsection \<open>The download (line 173 of main)\<close>

text \<open>
  The text of the download is \<open>df_view.to_csv()\<close>. Line 173 is reached after the time
  series section, the quick stats and the monthly mean of the same view, in this order;
  an exception in one of them ends the run. The calls that only draw (charts, metric,
  tables) are left out.
\<close>

definition main_download :: "library \<Rightarrow> opts \<Rightarrow> frame \<Rightarrow> error + string" where
  "main_download lib options df_view =
     then_do (main_time_series lib options df_view) (\<lambda>plotted.
     then_do (main_quick_stats_view df_view) (\<lambda>quick.
     then_do (main_monthly lib df_view) (\<lambda>monthly.
       Inr (to_csv lib df_view))))"

subsection \<open>A concrete library\<close>

text \<open>
  Instances of the library parameters, for running the derivations on concrete views:
  the rolling value is the mean of the finite values of the window, rounded once; the
  bucket means and the exported text are fixed.
\<close>

definition example_rolling_value :: "fval list \<Rightarrow> nat \<Rightarrow> nat \<Rightarrow> fval" where
  "example_rolling_value xs w i =
     to_double False
       (sum_list (map rat_of (filter is_finite (window_at w xs i)))
          / of_nat (length (filter is_finite (window_at w xs i))))"

definition example_library :: library where
  "example_library =
     \<lparr>resample_mean = (\<lambda>freq df. Inr df),
      rolling_value = example_rolling_value,
      to_csv = (\<lambda>df. ''Date,Value'')\<rparr>"

subsection \<open>Facts about the view filter\<close>

lemma pd_to_datetime_le [simp]: "pd_to_datetime a \<le> pd_to_datetime b \<longleftrightarrow> a \<le> b"
  unfolding pd_to_datetime_def by (subst less_eq_prod_def) auto

lemma loc_mask_map: "loc_mask rows (map P rows) = filter P rows"
  by (induction rows) (simp_all add: loc_mask_def)

lemma mask_and_map: "mask_and (map P xs) (map Q xs) = map (\<lambda>x. P x \<and> Q x) xs"
  by (induction xs) (simp_all add: mask_and_def)

lemma main_filter_eq:
  "main_filter s e rows = filter (\<lambda>r. s \<le> fst r \<and> fst r \<le> e) rows"
proof -
  have "mask_and (index_ge (map (pd_to_datetime \<circ> fst) rows) (pd_to_datetime s))
                 (index_le (map (pd_to_datetime \<circ> fst) rows) (pd_to_datetime e))
        = map (\<lambda>r. s \<le> fst r \<and> fst r \<le> e) rows"
    by (simp add: index_ge_def index_le_def mask_and_map [where xs = rows, symmetric] comp_def
        del: pd_to_datetime_le)
       (simp add: mask_and_map)
  then show ?thesis
    by (simp add: main_filter_def Let_def loc_mask_map)
qed

text \<open>
  C6. For a range with \<open>start_date \<le> end_date\<close> the filter returns exactly the rows
  whose date lies in the range, both ends included, in their order and with their
  multiplicity; it is a total function, and its result is the empty table exactly when
  no row lies in the range.
\<close>

theorem filter_inclusive_range:
  assumes "start_date \<le> end_date"
  shows "main_filter start_date end_date rows
           = filter (\<lambda>r. start_date \<le> fst r \<and> fst r \<le> end_date) rows
         \<and> (main_filter start_date end_date rows = []
              \<longleftrightarrow> (\<forall>r \<in> set rows. \<not> (start_date \<le> fst r \<and> fst r \<le> end_date)))"
  by (simp add: main_filter_eq filter_empty_conv)

theorem filter_inclusive_range_witness:
  "((2020, 1, 2) :: date) \<le> (2020, 1, 3)
   \<and> main_filter (2020, 1, 2) (2020, 1, 3)
       [((2020, 1, 1), 10 :: rat), ((2020, 1, 2), 20), ((2020, 1, 3), 30), ((2020, 1, 4), 40)]
     = [((2020, 1, 2), 20), ((2020, 1, 3), 30)]
   \<and> main_filter (2021, 1, 1) (2021, 12, 31) [((2020, 1, 1), 10 :: rat)] = []"
proof -
  have h: "((2020, 1, 2) :: date) \<le> (2020, 1, 3)" by (simp add: less_eq_prod_def)
  have h2: "((2021, 1, 1) :: date) \<le> (2021, 12, 31)" by (simp add: less_eq_prod_def)
  show ?thesis
    using filter_inclusive_range [OF h, of "[((2020, 1, 1), 10 :: rat), ((2020, 1, 2), 20),
            ((2020, 1, 3), 30), ((2020, 1, 4), 40)]"]
          filter_inclusive_range [OF h2, of "[((2020, 1, 1), 10 :: rat)]"]
    by (simp add: less_eq_prod_def)
qed

text \<open>
  C10. With \<open>start_date > end_date\<close> no date can satisfy both comparisons, so the mask is
  False everywhere and the filter returns the empty table; nothing is raised.
\<close>

theorem filter_inverted_range_empty:
  assumes "end_date < start_date"
  shows "main_filter start_date end_date rows = []"
proof -
  have "\<not> (start_date \<le> d \<and> d \<le> end_date)" for d
    using assms by auto
  then show ?thesis
    by (simp add: main_filter_eq)
qed

theorem filter_inverted_range_empty_witness:
  "((2020, 1, 1) :: date) < (2020, 1, 3)
   \<and> main_filter (2020, 1, 3) (2020, 1, 1)
       [((2020, 1, 1), 10 :: rat), ((2020, 1, 2), 20), ((2020, 1, 3), 30)] = []"
proof -
  have h: "((2020, 1, 1) :: date) < (2020, 1, 3)" by (simp add: less_prod_def)
  show ?thesis
    using h filter_inverted_range_empty [OF h] by simp
qed

subsection \<open>Facts about the header search\<close>

lemma find_header_shift: "find_header ls i = map_option (\<lambda>k. i + k) (find_header ls 0)"
proof (induction ls arbitrary: i)
  case Nil
  then show ?case by simp
next
  case (Cons l ls)
  have "find_header ls (Suc i) = map_option (\<lambda>k. Suc i + k) (find_header ls 0)"
    by (rule Cons.IH)
  moreover have "find_header ls (Suc 0) = map_option (\<lambda>k. Suc 0 + k) (find_header ls 0)"
    by (rule Cons.IH)
  ultimately show ?case
    by (simp add: option.map_comp comp_def)
qed

lemma find_header_none: "find_header ls i = None \<longleftrightarrow> (\<forall>l \<in> set ls. \<not> is_header l)"
  by (induction ls arbitrary: i) auto

lemma find_header_skip:
  "\<forall>l \<in> set meta. \<not> is_header l \<Longrightarrow> find_header (meta @ ls) i = find_header ls (i + length meta)"
  by (induction meta arbitrary: i) auto

lemma find_header_first:
  "find_header ls i = Some k \<Longrightarrow>
     i \<le> k \<and> k - i < length ls \<and> is_header (ls ! (k - i)) \<and> (\<forall>j < k - i. \<not> is_header (ls ! j))"
proof (induction ls arbitrary: i)
  case Nil
  then show ?case by simp
next
  case (Cons l ls)
  show ?case
  proof (cases "is_header l")
    case True
    with Cons.prems show ?thesis by simp
  next
    case False
    with Cons.prems have s: "find_header ls (Suc i) = Some k" by simp
    from Cons.IH [OF s] have ih: "Suc i \<le> k" "k - Suc i < length ls"
      "is_header (ls ! (k - Suc i))" "\<forall>j < k - Suc i. \<not> is_header (ls ! j)" by auto
    have e: "k - i = Suc (k - Suc i)" using ih(1) by arith
    show ?thesis
      using ih False unfolding e by (auto simp: nth_Cons split: nat.splits)
  qed
qed

lemma splitlines_from_line:
  "\<forall>c \<in> set l. \<not> is_linebreak c \<Longrightarrow>
     splitlines_from cur (l @ CHR 0x0A # t) = (cur @ l) # splitlines_from [] t"
proof (induction l arbitrary: cur)
  case Nil
  then show ?case by (simp add: is_linebreak_def)
next
  case (Cons c l)
  then have nb: "\<not> is_linebreak c" and rest: "\<forall>c \<in> set l. \<not> is_linebreak c" by auto
  from nb have "c \<noteq> CHR 0x0D" by (auto simp: is_linebreak_def)
  then show ?case using nb Cons.IH [OF rest] by simp
qed

lemma splitlines_prepend:
  "\<forall>m \<in> set metas. \<forall>c \<in> set m. \<not> is_linebreak c \<Longrightarrow>
     splitlines (concat (map (\<lambda>m. m @ [CHR 0x0A]) metas) @ body) = metas @ splitlines body"
proof (induction metas)
  case Nil
  then show ?case by simp
next
  case (Cons m metas)
  then have m: "\<forall>c \<in> set m. \<not> is_linebreak c" 
    and ih: "splitlines (concat (map (\<lambda>m. m @ [CHR 0x0A]) metas) @ body) = metas @ splitlines body"
    by auto
  show ?case
    using splitlines_from_line [OF m, of "[]" "concat (map (\<lambda>m. m @ [CHR 0x0A]) metas) @ body"] ih
    by (simp add: splitlines_def)
qed

lemma find_header_iff:
  "find_header ls 0 = Some k \<longleftrightarrow>
     k < length ls \<and> is_header (ls ! k) \<and> (\<forall>j < k. \<not> is_header (ls ! j))"
proof
  assume "find_header ls 0 = Some k"
  from find_header_first [OF this] show
    "k < length ls \<and> is_header (ls ! k) \<and> (\<forall>j < k. \<not> is_header (ls ! j))" by simp
next
  assume a: "k < length ls \<and> is_header (ls ! k) \<and> (\<forall>j < k. \<not> is_header (ls ! j))"
  then have split: "ls = take k ls @ (ls ! k) # drop (Suc k) ls"
    by (simp add: id_take_nth_drop)
  have "\<forall>l \<in> set (take k ls). \<not> is_header l"
    using a by (auto simp: in_set_conv_nth)
  then have "find_header (take k ls @ (ls ! k) # drop (Suc k) ls) 0
               = find_header ((ls ! k) # drop (Suc k) ls) (0 + length (take k ls))"
    by (rule find_header_skip)
  then show "find_header ls 0 = Some k"
    using a split by simp
qed

lemma load_csv_auto_no_header:
  "find_header (splitlines text) 0 = None \<Longrightarrow>
     load_csv_auto rc td text = then_do (rc text) (\<lambda>df. Inr (strip_columns df))"
  by (simp add: load_csv_auto_def)

lemma load_csv_auto_from_header:
  assumes "find_header (splitlines text) 0 = Some k"
      and "find_header (splitlines text') 0 = Some k'"
      and "drop k (splitlines text) = drop k' (splitlines text')"
  shows "load_csv_auto rc td text = load_csv_auto rc td text'"
  using assms by (simp add: load_csv_auto_def)

lemma main_load_uploaded_from_header:
  assumes "find_header (splitlines text) 0 = Some k"
      and "find_header (splitlines text') 0 = Some k'"
      and "drop k (splitlines text) = drop k' (splitlines text')"
  shows "main_load_uploaded rc td text = main_load_uploaded rc td text'"
  using assms by (simp add: main_load_uploaded_def)

lemma prepend_header_position:
  assumes m: "\<forall>m \<in> set metas. \<not> is_header m \<and> (\<forall>c \<in> set m. \<not> is_linebreak c)"
      and b: "find_header (splitlines body) 0 = Some 0"
  shows "find_header (splitlines (concat (map (\<lambda>m. m @ [CHR 0x0A]) metas) @ body)) 0
           = Some (length metas)"
    and "drop (length metas) (splitlines (concat (map (\<lambda>m. m @ [CHR 0x0A]) metas) @ body))
           = drop 0 (splitlines body)"
proof -
  have sp: "splitlines (concat (map (\<lambda>m. m @ [CHR 0x0A]) metas) @ body) = metas @ splitlines body"
    using m by (intro splitlines_prepend) auto
  have "find_header (metas @ splitlines body) 0 = find_header (splitlines body) (0 + length metas)"
    using m by (intro find_header_skip) auto
  also have "\<dots> = map_option (\<lambda>k. length metas + k) (find_header (splitlines body) 0)"
    using find_header_shift [of "splitlines body" "length metas"] by simp
  finally show "find_header (splitlines (concat (map (\<lambda>m. m @ [CHR 0x0A]) metas) @ body)) 0
           = Some (length metas)"
    using b sp by simp
  show "drop (length metas) (splitlines (concat (map (\<lambda>m. m @ [CHR 0x0A]) metas) @ body))
           = drop 0 (splitlines body)"
    using sp by simp
qed

text \<open>
  C7. The header line is the first line that, trimmed and lower-cased, starts with
  \<open>date,\<close>: \<open>find_header\<close> gives its position, and gives \<open>None\<close> exactly when no
  line is one. With no header line \<open>load_csv_auto\<close> hands the whole text to the parser
  and returns what it parsed, with the column names trimmed. With a header line both
  loaders depend on the text only through the lines from the header on, so the lines
  before it are never parsed; in particular, putting lines that are not header lines in
  front of a text that starts with its header line changes the result of neither loader.
\<close>

theorem header_line_search:
  fixes read_csv :: reader and to_datetime :: converter
  shows
  "(\<forall>k. find_header (splitlines text) 0 = Some k \<longleftrightarrow>
          k < length (splitlines text) \<and> is_header (splitlines text ! k)
          \<and> (\<forall>j < k. \<not> is_header (splitlines text ! j)))
   \<and> (find_header (splitlines text) 0 = None \<longleftrightarrow> (\<forall>l \<in> set (splitlines text). \<not> is_header l))
   \<and> (find_header (splitlines text) 0 = None \<longrightarrow>
        load_csv_auto read_csv to_datetime text
          = then_do (read_csv text) (\<lambda>df. Inr (strip_columns df)))
   \<and> (\<forall>k k' text'.
         find_header (splitlines text) 0 = Some k \<and> find_header (splitlines text') 0 = Some k'
         \<and> drop k (splitlines text) = drop k' (splitlines text') \<longrightarrow>
         load_csv_auto read_csv to_datetime text = load_csv_auto read_csv to_datetime text'
         \<and> main_load_uploaded read_csv to_datetime text
             = main_load_uploaded read_csv to_datetime text')
   \<and> ((\<forall>m \<in> set metas. \<not> is_header m \<and> (\<forall>c \<in> set m. \<not> is_linebreak c))
        \<and> find_header (splitlines text) 0 = Some 0 \<longrightarrow>
        load_csv_auto read_csv to_datetime (concat (map (\<lambda>m. m @ [CHR 0x0A]) metas) @ text)
          = load_csv_auto read_csv to_datetime text
        \<and> main_load_uploaded read_csv to_datetime (concat (map (\<lambda>m. m @ [CHR 0x0A]) metas) @ text)
          = main_load_uploaded read_csv to_datetime text)"
proof (intro conjI allI impI)
  fix k
  show "find_header (splitlines text) 0 = Some k \<longleftrightarrow>
          k < length (splitlines text) \<and> is_header (splitlines text ! k)
          \<and> (\<forall>j < k. \<not> is_header (splitlines text ! j))"
    by (rule find_header_iff)
next
  show "find_header (splitlines text) 0 = None \<longleftrightarrow> (\<forall>l \<in> set (splitlines text). \<not> is_header l)"
    by (rule find_header_none)
next
  assume "find_header (splitlines text) 0 = None"
  then show "load_csv_auto read_csv to_datetime text
          = then_do (read_csv text) (\<lambda>df. Inr (strip_columns df))"
    by (rule load_csv_auto_no_header)
next
  fix k k' text'
  assume a: "find_header (splitlines text) 0 = Some k \<and> find_header (splitlines text') 0 = Some k'
         \<and> drop k (splitlines text) = drop k' (splitlines text')"
  then show "load_csv_auto read_csv to_datetime text = load_csv_auto read_csv to_datetime text'"
    by (intro load_csv_auto_from_header) auto
  from a show "main_load_uploaded read_csv to_datetime text
             = main_load_uploaded read_csv to_datetime text'"
    by (intro main_load_uploaded_from_header) auto
next
  assume a: "(\<forall>m \<in> set metas. \<not> is_header m \<and> (\<forall>c \<in> set m. \<not> is_linebreak c))
        \<and> find_header (splitlines text) 0 = Some 0"
  then have m: "\<forall>m \<in> set metas. \<not> is_header m \<and> (\<forall>c \<in> set m. \<not> is_linebreak c)"
    and b: "find_header (splitlines text) 0 = Some 0" by auto
  note p = prepend_header_position [OF m b]
  show "load_csv_auto read_csv to_datetime (concat (map (\<lambda>m. m @ [CHR 0x0A]) metas) @ text)
          = load_csv_auto read_csv to_datetime text"
    by (rule load_csv_auto_from_header [OF p(1) b p(2)])
  show "main_load_uploaded read_csv to_datetime (concat (map (\<lambda>m. m @ [CHR 0x0A]) metas) @ text)
          = main_load_uploaded read_csv to_datetime text"
    by (rule main_load_uploaded_from_header [OF p(1) b p(2)])
qed

lemmas text_defs = splitlines_def is_linebreak_def is_header_def startswith_def lower_def strip_def
  is_space_def lower_char_def upper_chars_def lower_chars_def

lemmas frame_defs = example_read_csv_def parsed_def day_def then_do_def strip_columns_def
  column_names_def columns_named_def assign_date_def sort_values_def set_index_def sort_index_def
  take_rows_def take_cells_def argsort_def dt_date_def pd_to_datetime_def report_failure_def
  quoted_def

theorem header_line_search_witness:
  "find_header (splitlines
      ''junk line\<newline>more junk\<newline>Date,Value\<newline>2020-01-01,1.5\<newline>2020-01-02,2.5\<newline>'') 0 = Some 2
   \<and> load_csv_auto example_read_csv timestamps_of
       (concat (map (\<lambda>m. m @ [CHR 0x0A]) [''junk line'', ''more junk''])
          @ ''Date,Value\<newline>2020-01-01,1.5\<newline>2020-01-02,2.5\<newline>'')
     = load_csv_auto example_read_csv timestamps_of
         ''Date,Value\<newline>2020-01-01,1.5\<newline>2020-01-02,2.5\<newline>''
   \<and> load_csv_auto example_read_csv timestamps_of
         ''Date,Value\<newline>2020-01-01,1.5\<newline>2020-01-02,2.5\<newline>''
     = Inr \<lparr>index = Labels ''Date'' Object [DateObj (2020, 1, 1), DateObj (2020, 1, 2)],
            cols = [\<lparr>cname = ''Value'', dtype = Float64, cells = [Number (3/2), Number (5/2)]\<rparr>]\<rparr>
   \<and> find_header (splitlines ''Date ,Value\<newline>2020-01-02,2.0\<newline>2020-01-01,1.0\<newline>'') 0 = None
   \<and> load_csv_auto example_read_csv timestamps_of
         ''Date ,Value\<newline>2020-01-02,2.0\<newline>2020-01-01,1.0\<newline>''
     = Inr (strip_columns (parsed ''Date '' [day 2020 1 2, day 2020 1 1] [2, 1]))"
proof -
  note body = header_line_search
    [of "''Date,Value\<newline>2020-01-01,1.5\<newline>2020-01-02,2.5\<newline>''"
        example_read_csv timestamps_of "[''junk line'', ''more junk'']"]
  note bare = header_line_search
    [of "''Date ,Value\<newline>2020-01-02,2.0\<newline>2020-01-01,1.0\<newline>''"
        example_read_csv timestamps_of "[]"]
  have h0: "find_header (splitlines
      ''Date,Value\<newline>2020-01-01,1.5\<newline>2020-01-02,2.5\<newline>'') 0 = Some 0"
    by (simp add: text_defs)
  have metas: "\<forall>m \<in> set [''junk line'', ''more junk''].
                 \<not> is_header m \<and> (\<forall>c \<in> set m. \<not> is_linebreak c)"
    by (simp add: text_defs)
  have a: "find_header (splitlines
      ''junk line\<newline>more junk\<newline>Date,Value\<newline>2020-01-01,1.5\<newline>2020-01-02,2.5\<newline>'') 0 = Some 2"
    by (simp add: text_defs)
  have b: "load_csv_auto example_read_csv timestamps_of
       (concat (map (\<lambda>m. m @ [CHR 0x0A]) [''junk line'', ''more junk''])
          @ ''Date,Value\<newline>2020-01-01,1.5\<newline>2020-01-02,2.5\<newline>'')
     = load_csv_auto example_read_csv timestamps_of
         ''Date,Value\<newline>2020-01-01,1.5\<newline>2020-01-02,2.5\<newline>''"
    using body metas h0 by blast
  have c: "load_csv_auto example_read_csv timestamps_of
         ''Date,Value\<newline>2020-01-01,1.5\<newline>2020-01-02,2.5\<newline>''
     = Inr \<lparr>index = Labels ''Date'' Object [DateObj (2020, 1, 1), DateObj (2020, 1, 2)],
            cols = [\<lparr>cname = ''Value'', dtype = Float64, cells = [Number (3/2), Number (5/2)]\<rparr>]\<rparr>"
    by (simp add: load_csv_auto_def text_defs frame_defs less_eq_prod_def)
  have n: "find_header (splitlines ''Date ,Value\<newline>2020-01-02,2.0\<newline>2020-01-01,1.0\<newline>'') 0 = None"
    by (simp add: text_defs)
  have "load_csv_auto example_read_csv timestamps_of
         ''Date ,Value\<newline>2020-01-02,2.0\<newline>2020-01-01,1.0\<newline>''
     = then_do (example_read_csv ''Date ,Value\<newline>2020-01-02,2.0\<newline>2020-01-01,1.0\<newline>'')
         (\<lambda>df. Inr (strip_columns df))"
    using bare n by blast
  then have d: "load_csv_auto example_read_csv timestamps_of
         ''Date ,Value\<newline>2020-01-02,2.0\<newline>2020-01-01,1.0\<newline>''
     = Inr (strip_columns (parsed ''Date '' [day 2020 1 2, day 2020 1 1] [2, 1]))"
    by (simp add: example_read_csv_def then_do_def)
  from a b c n d show ?thesis by blast
qed

subsection \<open>Facts about the date index\<close>

lemma cell_dates_DateObj: "cell_dates (map DateObj ds) = Some ds"
  by (induction ds) simp_all

lemma take_cells_map:
  "\<forall>i \<in> set order. i < length xs \<Longrightarrow> take_cells order (map f xs) = map f (take_cells order xs)"
  by (simp add: take_cells_def)

lemma set_argsort: "set (argsort ds) = {0..<length ds}"
  by (simp add: argsort_def)

lemma sorted_argsort: "sorted (take_cells (argsort ds) ds)"
  using sorted_sort_key [of "\<lambda>i. ds ! i" "[0..<length ds]"]
  by (simp add: take_cells_def argsort_def)

lemma mset_argsort: "mset (take_cells (argsort ds) ds) = mset ds"
proof -
  have "mset (map (\<lambda>i. ds ! i) (sort_key (\<lambda>i. ds ! i) [0..<length ds]))
          = image_mset (\<lambda>i. ds ! i) (mset (sort_key (\<lambda>i. ds ! i) [0..<length ds]))"
    by simp
  also have "\<dots> = image_mset (\<lambda>i. ds ! i) (mset [0..<length ds])"
    by simp
  also have "\<dots> = mset (map (\<lambda>i. ds ! i) [0..<length ds])"
    by simp
  also have "\<dots> = mset ds"
    by (simp add: map_nth)
  finally show ?thesis
    by (simp add: take_cells_def argsort_def)
qed

lemma take_cells_argsort_DateObj:
  "take_cells (argsort ds) (map DateObj ds) = map DateObj (take_cells (argsort ds) ds)"
  by (rule take_cells_map) (simp add: set_argsort)

lemma columns_named_map:
  "(\<And>c. cname (g c) = cname c) \<Longrightarrow>
     columns_named n (df\<lparr>cols := map g (cols df)\<rparr>) = map g (columns_named n df)"
  by (simp add: columns_named_def filter_map comp_def)

lemma columns_named_take_rows:
  "columns_named n (take_rows order df)
     = map (\<lambda>c. c\<lparr>cells := take_cells order (cells c)\<rparr>) (columns_named n df)"
  by (simp add: columns_named_def take_rows_def filter_map comp_def)

lemma assign_date_result:
  assumes "assign_date td df = Inr df'"
  obtains c ts where "columns_named ''Date'' df = [c]" "td (cells c) = Inr ts"
    "columns_named ''Date'' df' = [c\<lparr>dtype := Object, cells := map (DateObj \<circ> dt_date) ts\<rparr>]"
    "index df' = index df"
proof -
  from assms obtain c where c: "columns_named ''Date'' df = [c]"
    by (auto simp: assign_date_def split: list.splits)
  with assms obtain ts where ts: "td (cells c) = Inr ts"
    and df': "df' = df\<lparr>cols := map (\<lambda>c. if cname c = ''Date''
                 then c\<lparr>dtype := Object, cells := map (DateObj \<circ> dt_date) ts\<rparr> else c) (cols df)\<rparr>"
    by (auto simp: assign_date_def then_do_def split: sum.splits)
  have "c \<in> set (columns_named ''Date'' df)"
    using c by simp
  then have nm: "cname c = ''Date''"
    by (simp add: columns_named_def)
  have "columns_named ''Date'' df'
          = map (\<lambda>c. if cname c = ''Date''
                 then c\<lparr>dtype := Object, cells := map (DateObj \<circ> dt_date) ts\<rparr> else c)
              (columns_named ''Date'' df)"
    unfolding df' by (rule columns_named_map) simp
  then have "columns_named ''Date'' df' = [c\<lparr>dtype := Object, cells := map (DateObj \<circ> dt_date) ts\<rparr>]"
    using c nm by simp
  moreover have "index df' = index df" by (simp add: df')
  ultimately show ?thesis using that c ts by blast
qed

lemma sort_then_index:
  assumes c: "columns_named ''Date'' df = [c]"
      and cs: "cells c = map DateObj ds0" and t: "dtype c = Object"
      and r: "then_do (sort_values ''Date'' df) (set_index ''Date'') = Inr out"
  shows "index out = Labels ''Date'' Object (map DateObj (take_cells (argsort ds0) ds0))"
proof -
  have sv: "sort_values ''Date'' df = Inr (take_rows (argsort ds0) df)"
    using c cs by (simp add: sort_values_def cell_dates_DateObj)
  have "columns_named ''Date'' (take_rows (argsort ds0) df)
          = [c\<lparr>cells := take_cells (argsort ds0) (cells c)\<rparr>]"
    using c by (simp add: columns_named_take_rows)
  then have "set_index ''Date'' (take_rows (argsort ds0) df)
          = Inr \<lparr>index = Labels ''Date'' Object (take_cells (argsort ds0) (map DateObj ds0)),
                 cols = filter (\<lambda>c. cname c \<noteq> ''Date'') (cols (take_rows (argsort ds0) df))\<rparr>"
    using cs t by (simp add: set_index_def)
  with r sv show ?thesis
    by (auto simp: then_do_def take_cells_argsort_DateObj)
qed

lemma index_then_sort:
  assumes c: "columns_named ''Date'' df = [c]"
      and cs: "cells c = map DateObj ds0" and t: "dtype c = Object"
      and r: "then_do (set_index ''Date'' df) sort_index = Inr out"
  shows "index out = Labels ''Date'' Object (map DateObj (take_cells (argsort ds0) ds0))"
proof -
  have si: "set_index ''Date'' df
          = Inr \<lparr>index = Labels ''Date'' Object (map DateObj ds0),
                 cols = filter (\<lambda>c. cname c \<noteq> ''Date'') (cols df)\<rparr>"
    using c cs t by (simp add: set_index_def)
  show ?thesis
    using r unfolding si
    by (simp add: then_do_def sort_index_def cell_dates_DateObj take_rows_def
        take_cells_argsort_DateObj [symmetric])
       (auto simp: take_cells_argsort_DateObj)
qed

lemma dated_csv_auto:
  assumes "then_do (assign_date td df)
             (\<lambda>df. then_do (sort_values ''Date'' df) (\<lambda>df. set_index ''Date'' df)) = Inr out"
  shows "\<exists>c ts ds. columns_named ''Date'' df = [c] \<and> td (cells c) = Inr ts
           \<and> index out = Labels ''Date'' Object (map DateObj ds)
           \<and> sorted ds \<and> mset ds = mset (map dt_date ts)"
proof -
  from assms obtain df1 where a: "assign_date td df = Inr df1"
    and r: "then_do (sort_values ''Date'' df1) (set_index ''Date'') = Inr out"
    by (auto simp: then_do_def split: sum.splits)
  from a obtain c ts where c: "columns_named ''Date'' df = [c]" and ts: "td (cells c) = Inr ts"
    and c1: "columns_named ''Date'' df1 = [c\<lparr>dtype := Object, cells := map (DateObj \<circ> dt_date) ts\<rparr>]"
    by (rule assign_date_result)
  have "index out = Labels ''Date'' Object
          (map DateObj (take_cells (argsort (map dt_date ts)) (map dt_date ts)))"
    by (rule sort_then_index [OF c1 _ _ r]) simp_all
  then show ?thesis
    using c ts sorted_argsort [of "map dt_date ts"] mset_argsort [of "map dt_date ts"]
    by blast
qed

lemma dated_uploaded:
  assumes "then_do (assign_date td df) (\<lambda>df. then_do (set_index ''Date'' df) sort_index) = Inr out"
  shows "\<exists>c ts ds. columns_named ''Date'' df = [c] \<and> td (cells c) = Inr ts
           \<and> index out = Labels ''Date'' Object (map DateObj ds)
           \<and> sorted ds \<and> mset ds = mset (map dt_date ts)"
proof -
  from assms obtain df1 where a: "assign_date td df = Inr df1"
    and r: "then_do (set_index ''Date'' df1) sort_index = Inr out"
    by (auto simp: then_do_def split: sum.splits)
  from a obtain c ts where c: "columns_named ''Date'' df = [c]" and ts: "td (cells c) = Inr ts"
    and c1: "columns_named ''Date'' df1 = [c\<lparr>dtype := Object, cells := map (DateObj \<circ> dt_date) ts\<rparr>]"
    by (rule assign_date_result)
  have "index out = Labels ''Date'' Object
          (map DateObj (take_cells (argsort (map dt_date ts)) (map dt_date ts)))"
    by (rule index_then_sort [OF c1 _ _ r]) simp_all
  then show ?thesis
    using c ts sorted_argsort [of "map dt_date ts"] mset_argsort [of "map dt_date ts"]
    by blast
qed

lemma report_failure_Inr: "report_failure r = Inr x \<longleftrightarrow> r = Inr x"
  by (auto simp: report_failure_def split: sum.splits error.splits)

text \<open>
  C3, as the code has it. The loaders build the sorted date index only when the parsed
  frame has a column named exactly \<open>Date\<close> (after trimming): \<open>load_csv_auto\<close> on its
  header-line path, the loader of an uploaded file on both of its paths. Then, whenever
  the loader returns a frame, the index of that frame is named \<open>Date\<close>, holds calendar
  dates (the converted timestamps with the time of day dropped), is sorted ascending,
  and holds every converted date as often as the input does: nothing is deduplicated.
  When the frame parsed on the header-line path has no such column, \<open>load_csv_auto\<close>
  returns it as parsed, with the column names trimmed.
\<close>

theorem loader_date_index_sorted:
  fixes read_csv :: reader and to_datetime :: converter
  shows
  "(load_csv_auto read_csv to_datetime text = Inr df
      \<and> find_header (splitlines text) 0 = Some k
      \<and> read_csv (join_lines (drop k (splitlines text))) = Inr raw
      \<and> ''Date'' \<in> set (column_names (strip_columns raw))
    \<longrightarrow> (\<exists>c ts ds. columns_named ''Date'' (strip_columns raw) = [c]
            \<and> to_datetime (cells c) = Inr ts
            \<and> index df = Labels ''Date'' Object (map DateObj ds)
            \<and> sorted ds \<and> mset ds = mset (map dt_date ts)))
   \<and> (main_load_uploaded read_csv to_datetime text = Inr df
      \<and> find_header (splitlines text) 0 = Some k
      \<and> read_csv (join_lines (drop k (splitlines text))) = Inr raw
    \<longrightarrow> (\<exists>c ts ds. columns_named ''Date'' (strip_columns raw) = [c]
            \<and> to_datetime (cells c) = Inr ts
            \<and> index df = Labels ''Date'' Object (map DateObj ds)
            \<and> sorted ds \<and> mset ds = mset (map dt_date ts)))
   \<and> (main_load_uploaded read_csv to_datetime text = Inr df
      \<and> find_header (splitlines text) 0 = None
      \<and> read_csv text = Inr raw
      \<and> ''Date'' \<in> set (column_names (strip_columns raw))
    \<longrightarrow> (\<exists>c ts ds. columns_named ''Date'' (strip_columns raw) = [c]
            \<and> to_datetime (cells c) = Inr ts
            \<and> index df = Labels ''Date'' Object (map DateObj ds)
            \<and> sorted ds \<and> mset ds = mset (map dt_date ts)))
   \<and> (find_header (splitlines text) 0 = Some k
      \<and> read_csv (join_lines (drop k (splitlines text))) = Inr raw
      \<and> ''Date'' \<notin> set (column_names (strip_columns raw))
    \<longrightarrow> load_csv_auto read_csv to_datetime text = Inr (strip_columns raw))"
proof (intro conjI impI)
  assume "load_csv_auto read_csv to_datetime text = Inr df
      \<and> find_header (splitlines text) 0 = Some k
      \<and> read_csv (join_lines (drop k (splitlines text))) = Inr raw
      \<and> ''Date'' \<in> set (column_names (strip_columns raw))"
  then have "then_do (assign_date to_datetime (strip_columns raw))
             (\<lambda>df. then_do (sort_values ''Date'' df) (\<lambda>df. set_index ''Date'' df)) = Inr df"
    by (auto simp: load_csv_auto_def then_do_def Let_def)
  then show "\<exists>c ts ds. columns_named ''Date'' (strip_columns raw) = [c]
            \<and> to_datetime (cells c) = Inr ts
            \<and> index df = Labels ''Date'' Object (map DateObj ds)
            \<and> sorted ds \<and> mset ds = mset (map dt_date ts)"
    by (rule dated_csv_auto)
next
  assume "main_load_uploaded read_csv to_datetime text = Inr df
      \<and> find_header (splitlines text) 0 = Some k
      \<and> read_csv (join_lines (drop k (splitlines text))) = Inr raw"
  then have "then_do (assign_date to_datetime (strip_columns raw))
             (\<lambda>df. then_do (set_index ''Date'' df) sort_index) = Inr df"
    by (auto simp: main_load_uploaded_def report_failure_Inr then_do_def Let_def)
  then show "\<exists>c ts ds. columns_named ''Date'' (strip_columns raw) = [c]
            \<and> to_datetime (cells c) = Inr ts
            \<and> index df = Labels ''Date'' Object (map DateObj ds)
            \<and> sorted ds \<and> mset ds = mset (map dt_date ts)"
    by (rule dated_uploaded)
next
  assume "main_load_uploaded read_csv to_datetime text = Inr df
      \<and> find_header (splitlines text) 0 = None
      \<and> read_csv text = Inr raw
      \<and> ''Date'' \<in> set (column_names (strip_columns raw))"
  then have "then_do (assign_date to_datetime (strip_columns raw))
             (\<lambda>df. then_do (set_index ''Date'' df) sort_index) = Inr df"
    by (auto simp: main_load_uploaded_def report_failure_Inr then_do_def Let_def)
  then show "\<exists>c ts ds. columns_named ''Date'' (strip_columns raw) = [c]
            \<and> to_datetime (cells c) = Inr ts
            \<and> index df = Labels ''Date'' Object (map DateObj ds)
            \<and> sorted ds \<and> mset ds = mset (map dt_date ts)"
    by (rule dated_uploaded)
next
  assume "find_header (splitlines text) 0 = Some k
      \<and> read_csv (join_lines (drop k (splitlines text))) = Inr raw
      \<and> ''Date'' \<notin> set (column_names (strip_columns raw))"
  then show "load_csv_auto read_csv to_datetime text = Inr (strip_columns raw)"
    by (auto simp: load_csv_auto_def then_do_def Let_def)
qed

theorem loader_date_index_sorted_witness:
  "load_csv_auto example_read_csv timestamps_of
     ''Date,Value\<newline>2020-01-02,2.0\<newline>2020-01-01,1.0\<newline>2020-01-02,3.0\<newline>''
   = Inr \<lparr>index = Labels ''Date'' Object
                   [DateObj (2020, 1, 1), DateObj (2020, 1, 2), DateObj (2020, 1, 2)],
          cols = [\<lparr>cname = ''Value'', dtype = Float64, cells = [Number 1, Number 2, Number 3]\<rparr>]\<rparr>
   \<and> (\<exists>c ts ds.
         columns_named ''Date''
           (strip_columns (parsed ''Date'' [day 2020 1 2, day 2020 1 1, day 2020 1 2] [2, 1, 3])) = [c]
         \<and> timestamps_of (cells c) = Inr ts
         \<and> Labels ''Date'' Object [DateObj (2020, 1, 1), DateObj (2020, 1, 2), DateObj (2020, 1, 2)]
             = Labels ''Date'' Object (map DateObj ds)
         \<and> sorted ds \<and> mset ds = mset (map dt_date ts))"
proof -
  let ?text = "''Date,Value\<newline>2020-01-02,2.0\<newline>2020-01-01,1.0\<newline>2020-01-02,3.0\<newline>''"
  let ?raw = "parsed ''Date'' [day 2020 1 2, day 2020 1 1, day 2020 1 2] [2, 1, 3]"
  let ?df = "\<lparr>index = Labels ''Date'' Object
                   [DateObj (2020, 1, 1), DateObj (2020, 1, 2), DateObj (2020, 1, 2)],
          cols = [\<lparr>cname = ''Value'', dtype = Float64, cells = [Number 1, Number 2, Number 3]\<rparr>]\<rparr>"
  have l: "load_csv_auto example_read_csv timestamps_of ?text = Inr ?df"
    by (simp add: load_csv_auto_def text_defs frame_defs less_eq_prod_def)
  have h: "find_header (splitlines ?text) 0 = Some 0"
    by (simp add: text_defs)
  have r: "example_read_csv (join_lines (drop 0 (splitlines ?text))) = Inr ?raw"
    by (simp add: text_defs example_read_csv_def)
  have d: "''Date'' \<in> set (column_names (strip_columns ?raw))"
    by (simp add: column_names_def strip_columns_def parsed_def strip_def is_space_def)
  from loader_date_index_sorted [of example_read_csv timestamps_of ?text ?df 0 ?raw] l h r d
  have "\<exists>c ts ds. columns_named ''Date'' (strip_columns ?raw) = [c]
         \<and> timestamps_of (cells c) = Inr ts
         \<and> index ?df = Labels ''Date'' Object (map DateObj ds)
         \<and> sorted ds \<and> mset ds = mset (map dt_date ts)"
    by blast
  with l show ?thesis by simp
qed

text \<open>
  C3 as stated fails. A header line is recognised without regard to case, but the column
  must be named exactly \<open>Date\<close>: on the text below \<open>load_csv_auto\<close> accepts the input
  and returns the rows as parsed, in file order, under the default index. On its
  no-header path \<open>load_csv_auto\<close> returns the parsed frame as it is even when it has a
  \<open>Date\<close> column, where the loader of an uploaded file sorts and indexes it.
\<close>

theorem loader_date_index_counterexample:
  "load_csv_auto example_read_csv timestamps_of
     ''date,Value\<newline>2020-01-02,2.0\<newline>2020-01-01,1.0\<newline>''
   = Inr \<lparr>index = RangeIndex,
          cols = [\<lparr>cname = ''date'', dtype = Datetime64,
                   cells = [Timestamp ((2020, 1, 2), 0), Timestamp ((2020, 1, 1), 0)]\<rparr>,
                  \<lparr>cname = ''Value'', dtype = Float64, cells = [Number 2, Number 1]\<rparr>]\<rparr>
   \<and> \<not> sorted [(2020, 1, 2), (2020, 1, 1) :: date]
   \<and> load_csv_auto example_read_csv timestamps_of
     ''Date ,Value\<newline>2020-01-02,2.0\<newline>2020-01-01,1.0\<newline>''
   = Inr \<lparr>index = RangeIndex,
          cols = [\<lparr>cname = ''Date'', dtype = Datetime64,
                   cells = [Timestamp ((2020, 1, 2), 0), Timestamp ((2020, 1, 1), 0)]\<rparr>,
                  \<lparr>cname = ''Value'', dtype = Float64, cells = [Number 2, Number 1]\<rparr>]\<rparr>
   \<and> main_load_uploaded example_read_csv timestamps_of
     ''Date ,Value\<newline>2020-01-02,2.0\<newline>2020-01-01,1.0\<newline>''
   = Inr \<lparr>index = Labels ''Date'' Object [DateObj (2020, 1, 1), DateObj (2020, 1, 2)],
          cols = [\<lparr>cname = ''Value'', dtype = Float64, cells = [Number 1, Number 2]\<rparr>]\<rparr>"
proof (intro conjI)
  show "load_csv_auto example_read_csv timestamps_of
     ''date,Value\<newline>2020-01-02,2.0\<newline>2020-01-01,1.0\<newline>''
   = Inr \<lparr>index = RangeIndex,
          cols = [\<lparr>cname = ''date'', dtype = Datetime64,
                   cells = [Timestamp ((2020, 1, 2), 0), Timestamp ((2020, 1, 1), 0)]\<rparr>,
                  \<lparr>cname = ''Value'', dtype = Float64, cells = [Number 2, Number 1]\<rparr>]\<rparr>"
    by (simp add: load_csv_auto_def text_defs frame_defs)
  show "\<not> sorted [(2020, 1, 2), (2020, 1, 1) :: date]"
    by (simp add: less_eq_prod_def)
  show "load_csv_auto example_read_csv timestamps_of
     ''Date ,Value\<newline>2020-01-02,2.0\<newline>2020-01-01,1.0\<newline>''
   = Inr \<lparr>index = RangeIndex,
          cols = [\<lparr>cname = ''Date'', dtype = Datetime64,
                   cells = [Timestamp ((2020, 1, 2), 0), Timestamp ((2020, 1, 1), 0)]\<rparr>,
                  \<lparr>cname = ''Value'', dtype = Float64, cells = [Number 2, Number 1]\<rparr>]\<rparr>"
    by (simp add: load_csv_auto_def text_defs frame_defs)
  show "main_load_uploaded example_read_csv timestamps_of
     ''Date ,Value\<newline>2020-01-02,2.0\<newline>2020-01-01,1.0\<newline>''
   = Inr \<lparr>index = Labels ''Date'' Object [DateObj (2020, 1, 1), DateObj (2020, 1, 2)],
          cols = [\<lparr>cname = ''Value'', dtype = Float64, cells = [Number 1, Number 2]\<rparr>]\<rparr>"
    by (simp add: main_load_uploaded_def text_defs frame_defs less_eq_prod_def)
qed

subsection \<open>Facts about the value column\<close>

lemma select_first_numeric:
  assumes "cols df = pre @ c # post" and "dtype c \<in> {Int64, Float64}"
      and "\<forall>p \<in> set pre. dtype p \<notin> {Int64, Float64}"
  shows "select_dtypes_number df = cname c # map cname (filter (\<lambda>c. dtype c \<in> {Int64, Float64}) post)"
proof -
  have "filter (\<lambda>c. dtype c \<in> {Int64, Float64}) pre = []"
    using assms(3) by (simp add: filter_empty_conv)
  then show ?thesis
    using assms(1,2) by (simp add: select_dtypes_number_def)
qed

lemma select_none_numeric:
  "(\<forall>c \<in> set (cols df). dtype c \<notin> {Int64, Float64}) \<Longrightarrow> select_dtypes_number df = []"
  by (simp add: select_dtypes_number_def filter_empty_conv)

text \<open>
  C8, as the code has it. A frame with a column named exactly \<open>Value\<close> is kept as it
  is. Otherwise the first column of a numeric element type is renamed to \<open>Value\<close> (the
  index, where the dates are once the loader has indexed the frame, is not among the
  columns and stays as it is). With no numeric column the request ends on the reported
  message \<open>No numeric 'Value' column found in data.\<close>
\<close>

theorem value_column_selection:
  "(''Value'' \<in> set (column_names df) \<longrightarrow> main_select_value df = Inr df)
   \<and> (''Value'' \<notin> set (column_names df) \<and> cols df = pre @ c # post
        \<and> dtype c \<in> {Int64, Float64} \<and> (\<forall>p \<in> set pre. dtype p \<notin> {Int64, Float64})
      \<longrightarrow> main_select_value df = Inr (rename_column (cname c) ''Value'' df)
          \<and> index (rename_column (cname c) ''Value'' df) = index df
          \<and> cols (rename_column (cname c) ''Value'' df)
              = map (\<lambda>x. if cname x = cname c then x\<lparr>cname := ''Value''\<rparr> else x) (cols df)
          \<and> ''Value'' \<in> set (column_names (rename_column (cname c) ''Value'' df)))
   \<and> (''Value'' \<notin> set (column_names df) \<and> (\<forall>c \<in> set (cols df). dtype c \<notin> {Int64, Float64})
      \<longrightarrow> main_select_value df = Inl (Reported no_numeric_message))"
proof (intro conjI impI)
  assume "''Value'' \<in> set (column_names df)"
  then show "main_select_value df = Inr df"
    by (simp add: main_select_value_def)
next
  assume a: "''Value'' \<notin> set (column_names df) \<and> cols df = pre @ c # post
        \<and> dtype c \<in> {Int64, Float64} \<and> (\<forall>p \<in> set pre. dtype p \<notin> {Int64, Float64})"
  then have "select_dtypes_number df
               = cname c # map cname (filter (\<lambda>c. dtype c \<in> {Int64, Float64}) post)"
    by (intro select_first_numeric) auto
  with a show "main_select_value df = Inr (rename_column (cname c) ''Value'' df)"
    by (simp add: main_select_value_def)
  show "index (rename_column (cname c) ''Value'' df) = index df"
    by (simp add: rename_column_def)
  show "cols (rename_column (cname c) ''Value'' df)
              = map (\<lambda>x. if cname x = cname c then x\<lparr>cname := ''Value''\<rparr> else x) (cols df)"
    by (simp add: rename_column_def)
  from a show "''Value'' \<in> set (column_names (rename_column (cname c) ''Value'' df))"
    by (auto simp: rename_column_def column_names_def image_iff)
next
  assume a: "''Value'' \<notin> set (column_names df) \<and> (\<forall>c \<in> set (cols df). dtype c \<notin> {Int64, Float64})"
  then have "select_dtypes_number df = []"
    by (intro select_none_numeric) auto
  with a show "main_select_value df = Inl (Reported no_numeric_message)"
    by (simp add: main_select_value_def)
qed

theorem value_column_selection_witness:
  "main_select_value
     \<lparr>index = RangeIndex,
      cols = [\<lparr>cname = ''Rate'', dtype = Float64, cells = [Number 1]\<rparr>,
              \<lparr>cname = ''Value'', dtype = Object, cells = [Text ''x'']\<rparr>]\<rparr>
   = Inr \<lparr>index = RangeIndex,
          cols = [\<lparr>cname = ''Rate'', dtype = Float64, cells = [Number 1]\<rparr>,
                  \<lparr>cname = ''Value'', dtype = Object, cells = [Text ''x'']\<rparr>]\<rparr>
   \<and> main_select_value
     \<lparr>index = Labels ''Date'' Object [DateObj (2020, 1, 1)],
      cols = [\<lparr>cname = ''Note'', dtype = Object, cells = [Text ''x'']\<rparr>,
              \<lparr>cname = ''Rate'', dtype = Float64, cells = [Number 1]\<rparr>,
              \<lparr>cname = ''Count'', dtype = Int64, cells = [Number 7]\<rparr>]\<rparr>
   = Inr \<lparr>index = Labels ''Date'' Object [DateObj (2020, 1, 1)],
          cols = [\<lparr>cname = ''Note'', dtype = Object, cells = [Text ''x'']\<rparr>,
                  \<lparr>cname = ''Value'', dtype = Float64, cells = [Number 1]\<rparr>,
                  \<lparr>cname = ''Count'', dtype = Int64, cells = [Number 7]\<rparr>]\<rparr>
   \<and> main_select_value
     \<lparr>index = RangeIndex, cols = [\<lparr>cname = ''Note'', dtype = Object, cells = [Text ''x'']\<rparr>]\<rparr>
   = Inl (Reported no_numeric_message)"
proof -
  let ?note = "\<lparr>cname = ''Note'', dtype = Object, cells = [Text ''x'']\<rparr>"
  let ?rate = "\<lparr>cname = ''Rate'', dtype = Float64, cells = [Number 1]\<rparr>"
  let ?count = "\<lparr>cname = ''Count'', dtype = Int64, cells = [Number 7]\<rparr>"
  let ?named = "\<lparr>cname = ''Value'', dtype = Object, cells = [Text ''x'']\<rparr>"
  have a: "main_select_value \<lparr>index = RangeIndex, cols = [?rate, ?named]\<rparr>
             = Inr \<lparr>index = RangeIndex, cols = [?rate, ?named]\<rparr>"
    using value_column_selection [of "\<lparr>index = RangeIndex, cols = [?rate, ?named]\<rparr>"]
    by (simp add: column_names_def)
  have "main_select_value \<lparr>index = Labels ''Date'' Object [DateObj (2020, 1, 1)],
                            cols = [?note, ?rate, ?count]\<rparr>
          = Inr (rename_column (cname ?rate) ''Value''
                   \<lparr>index = Labels ''Date'' Object [DateObj (2020, 1, 1)],
                    cols = [?note, ?rate, ?count]\<rparr>)"
    using value_column_selection [of "\<lparr>index = Labels ''Date'' Object [DateObj (2020, 1, 1)],
                            cols = [?note, ?rate, ?count]\<rparr>" "[?note]" ?rate "[?count]"]
    by (simp add: column_names_def)
  then have b: "main_select_value \<lparr>index = Labels ''Date'' Object [DateObj (2020, 1, 1)],
                            cols = [?note, ?rate, ?count]\<rparr>
          = Inr \<lparr>index = Labels ''Date'' Object [DateObj (2020, 1, 1)],
                 cols = [?note, \<lparr>cname = ''Value'', dtype = Float64, cells = [Number 1]\<rparr>, ?count]\<rparr>"
    by (simp add: rename_column_def)
  have c: "main_select_value \<lparr>index = RangeIndex, cols = [?note]\<rparr> = Inl (Reported no_numeric_message)"
    using value_column_selection [of "\<lparr>index = RangeIndex, cols = [?note]\<rparr>"]
    by (simp add: column_names_def)
  from a b c show ?thesis by blast
qed

text \<open>
  C8 as stated fails in its last part: the failure is reported with the message above
  and no \<open>ParseError\<close> with the message \<open>no numeric value column\<close> is raised.
\<close>

theorem value_column_error_counterexample:
  "main_select_value
     \<lparr>index = RangeIndex, cols = [\<lparr>cname = ''Note'', dtype = Object, cells = [Text ''x'']\<rparr>]\<rparr>
   = Inl (Reported (''No numeric '' @ [CHR 0x27] @ ''Value'' @ [CHR 0x27] @ '' column found in data.''))
   \<and> main_select_value
     \<lparr>index = RangeIndex, cols = [\<lparr>cname = ''Note'', dtype = Object, cells = [Text ''x'']\<rparr>]\<rparr>
   \<noteq> Inl (Raised ''ParseError'' ''no numeric value column'')"
  by (simp add: main_select_value_def column_names_def select_dtypes_number_def
      no_numeric_message_def quoted_def)

subsection \<open>Facts for evaluating floats\<close>

lemma floor_rat_numeral: "\<lfloor>numeral a / numeral b :: rat\<rfloor> = numeral a div numeral b"
  by (metis floor_divide_of_int_eq of_int_numeral)

lemma ceiling_rat_numeral: "\<lceil>numeral a / numeral b :: rat\<rceil> = - (- numeral a div numeral b)"
  by (metis ceiling_def floor_divide_of_int_eq minus_divide_left of_int_minus of_int_numeral)

lemma bit_length_numeral:
  "bit_length 0 = 0"
  "bit_length 1 = 1"
  "bit_length (numeral Num.One) = 1"
  "bit_length (numeral (Num.Bit0 k)) = Suc (bit_length (numeral k))"
  "bit_length (numeral (Num.Bit1 k)) = Suc (bit_length (numeral k))"
  "bit_length (Suc 0) = Suc 0"
proof -
  show "bit_length 0 = 0" by (simp add: bit_length.simps)
  have one: "bit_length (Suc 0) = Suc 0"
    by (subst bit_length.simps) (simp add: bit_length.simps [of 0])
  then show "bit_length 1 = 1" by simp
  from one show "bit_length (numeral Num.One) = 1" by simp
  have "numeral (Num.Bit0 k) div 2 = (numeral k :: nat)" by simp
  then show "bit_length (numeral (Num.Bit0 k)) = Suc (bit_length (numeral k))"
    by (subst bit_length.simps) simp
  have "numeral (Num.Bit1 k) div 2 = (numeral k :: nat)" by simp
  then show "bit_length (numeral (Num.Bit1 k)) = Suc (bit_length (numeral k))"
    by (subst bit_length.simps) simp
  show "bit_length (Suc 0) = Suc 0" by (rule one)
qed

lemmas float_defs = fdiv_def fmul_def fadd_def fsub_def to_double_def round_double_def
  round_half_even_def pow2_def floor_log2_def double_exponent_def is_zero_def signed_inf_def
  signed_zero_def floor_rat_numeral ceiling_rat_numeral bit_length_numeral

subsection \<open>Facts about the index of a view, and resampling\<close>

lemma index_strip_columns: "index (strip_columns df) = index df"
  by (simp add: strip_columns_def)

lemma loader_index_kind:
  assumes rc: "\<And>t raw. read_csv t = Inr raw \<Longrightarrow> index raw = RangeIndex"
      and ld: "load_csv_auto read_csv to_datetime text = Inr df
               \<or> main_load_uploaded read_csv to_datetime text = Inr df"
  shows "index df = RangeIndex \<or> (\<exists>ls. index df = Labels ''Date'' Object ls)"
proof -
  have dated1: "\<exists>ls. index out = Labels ''Date'' Object ls"
    if "then_do (assign_date to_datetime d)
          (\<lambda>df. then_do (sort_values ''Date'' df) (\<lambda>df. set_index ''Date'' df)) = Inr out"
    for d out
    using dated_csv_auto [OF that] by blast
  have dated2: "\<exists>ls. index out = Labels ''Date'' Object ls"
    if "then_do (assign_date to_datetime d) (\<lambda>df. then_do (set_index ''Date'' df) sort_index)
          = Inr out"
    for d out
    using dated_uploaded [OF that] by blast
  from ld show ?thesis
  proof
    assume l: "load_csv_auto read_csv to_datetime text = Inr df"
    show ?thesis
    proof (cases "find_header (splitlines text) 0")
      case None
      with l obtain raw where "read_csv text = Inr raw" "df = strip_columns raw"
        by (auto simp: load_csv_auto_def then_do_def split: sum.splits)
      then show ?thesis using rc by (simp add: index_strip_columns)
    next
      case (Some k)
      with l obtain raw where raw: "read_csv (join_lines (drop k (splitlines text))) = Inr raw"
        and r: "(if ''Date'' \<in> set (column_names (strip_columns raw))
                 then then_do (assign_date to_datetime (strip_columns raw))
                        (\<lambda>df. then_do (sort_values ''Date'' df) (\<lambda>df. set_index ''Date'' df))
                 else Inr (strip_columns raw)) = Inr df"
        by (auto simp: load_csv_auto_def then_do_def Let_def split: sum.splits)
      show ?thesis
      proof (cases "''Date'' \<in> set (column_names (strip_columns raw))")
        case True
        with r show ?thesis using dated1 by simp
      next
        case False
        with r have "df = strip_columns raw" by simp
        then show ?thesis using rc [OF raw] by (simp add: index_strip_columns)
      qed
    qed
  next
    assume "main_load_uploaded read_csv to_datetime text = Inr df"
    then have l: "(let lines = splitlines text in
        case find_header lines 0 of
          None \<Rightarrow>
            then_do (read_csv text) (\<lambda>df.
              let df = strip_columns df in
              if ''Date'' \<in> set (column_names df)
              then then_do (assign_date to_datetime df) (\<lambda>df.
                   then_do (set_index ''Date'' df) sort_index)
              else Inr df)
        | Some header_idx \<Rightarrow>
            then_do (read_csv (join_lines (drop header_idx lines))) (\<lambda>df.
            then_do (assign_date to_datetime (strip_columns df)) (\<lambda>df.
            then_do (set_index ''Date'' df) sort_index))) = Inr df"
      by (simp add: main_load_uploaded_def report_failure_Inr)
    show ?thesis
    proof (cases "find_header (splitlines text) 0")
      case None
      with l obtain raw where raw: "read_csv text = Inr raw"
        and r: "(if ''Date'' \<in> set (column_names (strip_columns raw))
                 then then_do (assign_date to_datetime (strip_columns raw))
                        (\<lambda>df. then_do (set_index ''Date'' df) sort_index)
                 else Inr (strip_columns raw)) = Inr df"
        by (auto simp: then_do_def Let_def split: sum.splits)
      show ?thesis
      proof (cases "''Date'' \<in> set (column_names (strip_columns raw))")
        case True
        with r show ?thesis using dated2 by simp
      next
        case False
        with r have "df = strip_columns raw" by simp
        then show ?thesis using rc [OF raw] by (simp add: index_strip_columns)
      qed
    next
      case (Some k)
      with l obtain raw where
        "then_do (assign_date to_datetime (strip_columns raw))
           (\<lambda>df. then_do (set_index ''Date'' df) sort_index) = Inr df"
        by (auto simp: then_do_def Let_def split: sum.splits)
      then show ?thesis using dated2 by simp
    qed
  qed
qed

lemma main_select_value_index: "main_select_value df = Inr d \<Longrightarrow> index d = index df"
  by (auto simp: main_select_value_def rename_column_def split: if_splits list.splits)

lemma index_dtype_loc: "index_dtype (loc_index m i) = index_dtype i"
  by (cases i) simp_all

lemma main_view_index:
  "main_view to_datetime options df = Inr v \<Longrightarrow> \<exists>m. index v = loc_index m (index df)"
  by (auto simp: main_view_def then_do_def loc_frame_def split: prod.splits sum.splits)

lemma view_index_kind:
  assumes rc: "\<And>t raw. read_csv t = Inr raw \<Longrightarrow> index raw = RangeIndex"
      and ld: "load_csv_auto read_csv to_datetime text = Inr df
               \<or> main_load_uploaded read_csv to_datetime text = Inr df"
      and sv: "main_select_value df = Inr selected"
      and vw: "main_view to_datetime options selected = Inr df_view"
  shows "index_dtype (index df_view) \<noteq> Datetime64"
proof -
  have "index df = RangeIndex \<or> (\<exists>ls. index df = Labels ''Date'' Object ls)"
    by (rule loader_index_kind [OF _ ld]) (rule rc)
  then have "index_dtype (index df) \<noteq> Datetime64"
    by auto
  moreover have "index selected = index df"
    by (rule main_select_value_index [OF sv])
  moreover obtain m where "index df_view = loc_index m (index selected)"
    using main_view_index [OF vw] by blast
  ultimately show ?thesis
    by (simp add: index_dtype_loc)
qed

lemma resample_raises:
  "index_dtype (index df) \<noteq> Datetime64 \<Longrightarrow>
     pd_resample_mean lib freq df = Inl (Raised ''TypeError'' resample_type_error)"
  by (simp add: pd_resample_mean_def)

lemma example_read_csv_index:
  "\<forall>t raw. example_read_csv t = Inr raw \<longrightarrow> index raw = RangeIndex"
  by (auto simp: example_read_csv_def parsed_def split: if_splits)

lemma example_view:
  "load_csv_auto example_read_csv timestamps_of
     ''Date,Value\<newline>2020-01-01,1.5\<newline>2020-01-02,2.5\<newline>''
     = Inr \<lparr>index = Labels ''Date'' Object [DateObj (2020, 1, 1), DateObj (2020, 1, 2)],
            cols = [\<lparr>cname = ''Value'', dtype = Float64, cells = [Number (3/2), Number (5/2)]\<rparr>]\<rparr>"
  "main_select_value
     \<lparr>index = Labels ''Date'' Object [DateObj (2020, 1, 1), DateObj (2020, 1, 2)],
      cols = [\<lparr>cname = ''Value'', dtype = Float64, cells = [Number (3/2), Number (5/2)]\<rparr>]\<rparr>
     = Inr \<lparr>index = Labels ''Date'' Object [DateObj (2020, 1, 1), DateObj (2020, 1, 2)],
            cols = [\<lparr>cname = ''Value'', dtype = Float64, cells = [Number (3/2), Number (5/2)]\<rparr>]\<rparr>"
  "main_view timestamps_of
     \<lparr>date_range = ((2020, 1, 1), (2020, 1, 2)), show_table = True, chart_type = ''Line'',
      smoothing = False, rolling_window = None, resample_freq = ''None'',
      show_hist = False, show_box = False\<rparr>
     \<lparr>index = Labels ''Date'' Object [DateObj (2020, 1, 1), DateObj (2020, 1, 2)],
      cols = [\<lparr>cname = ''Value'', dtype = Float64, cells = [Number (3/2), Number (5/2)]\<rparr>]\<rparr>
     = Inr \<lparr>index = Labels ''Date'' Object [DateObj (2020, 1, 1), DateObj (2020, 1, 2)],
            cols = [\<lparr>cname = ''Value'', dtype = Float64, cells = [Number (3/2), Number (5/2)]\<rparr>]\<rparr>"
proof -
  show "load_csv_auto example_read_csv timestamps_of
     ''Date,Value\<newline>2020-01-01,1.5\<newline>2020-01-02,2.5\<newline>''
     = Inr \<lparr>index = Labels ''Date'' Object [DateObj (2020, 1, 1), DateObj (2020, 1, 2)],
            cols = [\<lparr>cname = ''Value'', dtype = Float64, cells = [Number (3/2), Number (5/2)]\<rparr>]\<rparr>"
    by (simp add: load_csv_auto_def text_defs frame_defs less_eq_prod_def)
  show "main_select_value
     \<lparr>index = Labels ''Date'' Object [DateObj (2020, 1, 1), DateObj (2020, 1, 2)],
      cols = [\<lparr>cname = ''Value'', dtype = Float64, cells = [Number (3/2), Number (5/2)]\<rparr>]\<rparr>
     = Inr \<lparr>index = Labels ''Date'' Object [DateObj (2020, 1, 1), DateObj (2020, 1, 2)],
            cols = [\<lparr>cname = ''Value'', dtype = Float64, cells = [Number (3/2), Number (5/2)]\<rparr>]\<rparr>"
    by (simp add: main_select_value_def column_names_def)
  show "main_view timestamps_of
     \<lparr>date_range = ((2020, 1, 1), (2020, 1, 2)), show_table = True, chart_type = ''Line'',
      smoothing = False, rolling_window = None, resample_freq = ''None'',
      show_hist = False, show_box = False\<rparr>
     \<lparr>index = Labels ''Date'' Object [DateObj (2020, 1, 1), DateObj (2020, 1, 2)],
      cols = [\<lparr>cname = ''Value'', dtype = Float64, cells = [Number (3/2), Number (5/2)]\<rparr>]\<rparr>
     = Inr \<lparr>index = Labels ''Date'' Object [DateObj (2020, 1, 1), DateObj (2020, 1, 2)],
            cols = [\<lparr>cname = ''Value'', dtype = Float64, cells = [Number (3/2), Number (5/2)]\<rparr>]\<rparr>"
    by (simp add: main_view_def index_cells_def then_do_def loc_frame_def loc_mask_def
        mask_and_def index_ge_def index_le_def pd_to_datetime_def less_eq_prod_def)
qed

text \<open>
  C2. The monthly mean is not computed on any view the program builds. The parser gives
  a frame with the default index; both loaders leave that index or replace it by the
  index of date objects named \<open>Date\<close>; the choice of the value column and the filter
  keep the kind of the index. So the index of the view never holds timestamps, and
  \<open>df_view.resample("M")\<close> of line 165 raises \<open>TypeError\<close>, as does line 126 whenever a
  resample frequency is chosen: there are no monthly buckets and no means.
\<close>

theorem monthly_mean_type_error:
  assumes "\<forall>t raw. read_csv t = Inr raw \<longrightarrow> index raw = RangeIndex"
      and "load_csv_auto read_csv to_datetime text = Inr df
           \<or> main_load_uploaded read_csv to_datetime text = Inr df"
      and "main_select_value df = Inr selected"
      and "main_view to_datetime options selected = Inr df_view"
  shows "main_monthly lib df_view
           = Inl (Raised ''TypeError'' resample_type_error)
         \<and> (resample_freq options \<noteq> ''None'' \<longrightarrow>
               main_time_series lib options df_view
                 = Inl (Raised ''TypeError'' resample_type_error))"
proof -
  have k: "index_dtype (index df_view) \<noteq> Datetime64"
    using assms(1) by (intro view_index_kind [OF _ assms(2) assms(3) assms(4)]) blast
  then show ?thesis
    by (simp add: main_monthly_def main_time_series_def resample_raises then_do_def)
qed

theorem monthly_mean_type_error_witness:
  "load_csv_auto example_read_csv timestamps_of
     ''Date,Value\<newline>2020-01-01,1.5\<newline>2020-01-02,2.5\<newline>''
     = Inr \<lparr>index = Labels ''Date'' Object [DateObj (2020, 1, 1), DateObj (2020, 1, 2)],
            cols = [\<lparr>cname = ''Value'', dtype = Float64, cells = [Number (3/2), Number (5/2)]\<rparr>]\<rparr>
   \<and> main_monthly example_library
       \<lparr>index = Labels ''Date'' Object [DateObj (2020, 1, 1), DateObj (2020, 1, 2)],
        cols = [\<lparr>cname = ''Value'', dtype = Float64, cells = [Number (3/2), Number (5/2)]\<rparr>]\<rparr>
     = Inl (Raised ''TypeError''
         ''Only valid with DatetimeIndex, TimedeltaIndex or PeriodIndex'')"
proof -
  let ?view = "\<lparr>index = Labels ''Date'' Object [DateObj (2020, 1, 1), DateObj (2020, 1, 2)],
            cols = [\<lparr>cname = ''Value'', dtype = Float64, cells = [Number (3/2), Number (5/2)]\<rparr>]\<rparr>"
  have l: "load_csv_auto example_read_csv timestamps_of
     ''Date,Value\<newline>2020-01-01,1.5\<newline>2020-01-02,2.5\<newline>'' = Inr ?view
     \<or> main_load_uploaded example_read_csv timestamps_of
     ''Date,Value\<newline>2020-01-01,1.5\<newline>2020-01-02,2.5\<newline>'' = Inr ?view"
    using example_view(1) by simp
  from monthly_mean_type_error [OF example_read_csv_index l example_view(2) example_view(3),
      of example_library]
  have "main_monthly example_library ?view
          = Inl (Raised ''TypeError'' resample_type_error)"
    by simp
  then have "main_monthly example_library ?view
     = Inl (Raised ''TypeError''
         ''Only valid with DatetimeIndex, TimedeltaIndex or PeriodIndex'')"
    by (simp add: resample_type_error_def)
  with example_view(1) show ?thesis by simp
qed

subsection \<open>Facts about the rolling mean\<close>















subsection \<open>Facts about the quick stats\<close>

lemma ffill_from_length: "length (ffill_from p xs) = length xs"
  by (induction xs arbitrary: p) simp_all

lemma ffill_from_nth:
  "i < length xs \<Longrightarrow> xs ! i \<noteq> NaN \<Longrightarrow> ffill_from p xs ! i = xs ! i"
proof (induction xs arbitrary: p i)
  case Nil
  then show ?case by simp
next
  case (Cons x xs)
  show ?case
  proof (cases i)
    case 0
    with Cons.prems show ?thesis by simp
  next
    case (Suc j)
    with Cons.prems have "j < length xs" "xs ! j \<noteq> NaN" by simp_all
    then have "ffill_from q xs ! j = xs ! j" for q
      by (rule Cons.IH)
    then show ?thesis using Suc by simp
  qed
qed

lemma ffill_length: "length (ffill xs) = length xs"
  by (simp add: ffill_def ffill_from_length)

lemma ffill_nth: "i < length xs \<Longrightarrow> xs ! i \<noteq> NaN \<Longrightarrow> ffill xs ! i = xs ! i"
  by (simp add: ffill_def ffill_from_nth)

lemma pct_change_length: "length (pct_change xs) = length xs"
proof (cases "ffill xs")
  case Nil
  then show ?thesis using ffill_length [of xs] by (simp add: pct_change_def)
next
  case (Cons y ys)
  then show ?thesis using ffill_length [of xs] by (simp add: pct_change_def)
qed

lemma pct_change_single: "pct_change [x] = [NaN]"
  by (simp add: pct_change_def ffill_def)

lemma pct_change_last:
  assumes "2 \<le> length xs"
  shows "last (pct_change xs)
           = fsub (fdiv (ffill xs ! (length xs - 1)) (ffill xs ! (length xs - 2))) (Finite 1)"
proof -
  have len: "length (ffill xs) = length xs" by (rule ffill_length)
  with assms obtain y ys where f: "ffill xs = y # ys"
    by (cases "ffill xs") auto
  with len assms have ys: "ys \<noteq> []" "length ys = length xs - 1" by auto
  have z: "zip (y # ys) ys \<noteq> []" using ys by (cases ys) auto
  have "last (zip (y # ys) ys) = zip (y # ys) ys ! (length ys - 1)"
    using z by (simp add: last_conv_nth)
  also have "\<dots> = ((y # ys) ! (length ys - 1), ys ! (length ys - 1))"
    using ys assms by (intro nth_zip) auto
  finally have lz: "last (zip (y # ys) ys) = ((y # ys) ! (length ys - 1), ys ! (length ys - 1))" .
  have "length ys - 1 = length xs - 2"
    using ys by arith
  then have a: "(y # ys) ! (length ys - 1) = ffill xs ! (length xs - 2)"
    using f by simp
  have "ys ! (length ys - 1) = (y # ys) ! length ys"
    using ys by (cases "length ys") auto
  then have b: "ys ! (length ys - 1) = ffill xs ! (length xs - 1)"
    using ys assms f by simp
  have "last (pct_change xs)
          = (\<lambda>(previous, current). fsub (fdiv current previous) (Finite 1))
              (last (zip (y # ys) ys))"
    using z by (simp add: pct_change_def f last_map)
  then show ?thesis
    by (simp only: lz a b prod.case)
qed

lemma sorted_last_max:
  "sorted xs \<Longrightarrow> x \<in> set xs \<Longrightarrow> x \<le> last xs"
  by (induction xs) (auto split: if_splits)

lemma main_quick_stats_run:
  assumes "df_view \<noteq> []"
  shows "main_quick_stats df_view
           = Inr \<lparr>last_value = snd (last df_view),
                  percent_change = fmul (last (pct_change (map snd df_view))) (Finite 100),
                  row_count = length df_view\<rparr>"
proof -
  have "map snd df_view \<noteq> []" using assms by simp
  moreover have "pct_change (map snd df_view) \<noteq> []"
    using assms pct_change_length [of "map snd df_view"] by (metis length_0_conv length_map)
  ultimately show ?thesis
    using assms by (simp add: main_quick_stats_def iloc_last_def then_do_def last_map)
qed

text \<open>
  C5, as the code has it. On a view with at least one row the quick stats are computed:
  the last value is the value of the last row, which in a view sorted by date is a row
  of the latest date; the row count is the number of rows; the percent change is
  not-a-number on a single row, and on two or more rows whose last two values are
  present it is \<open>(last / previous - 1) \<times> 100\<close>, each operation rounded to a float.
\<close>

theorem quick_stats_values:
  fixes df_view :: "(date \<times> fval) list"
  assumes "df_view \<noteq> []"
  shows "\<exists>s. main_quick_stats df_view = Inr s
           \<and> last_value s = snd (last df_view)
           \<and> row_count s = length df_view
           \<and> (length df_view = 1 \<longrightarrow> percent_change s = NaN)
           \<and> (2 \<le> length df_view \<and> snd (last df_view) \<noteq> NaN
                \<and> snd (df_view ! (length df_view - 2)) \<noteq> NaN \<longrightarrow>
                percent_change s
                  = fmul (fsub (fdiv (snd (last df_view)) (snd (df_view ! (length df_view - 2))))
                            (Finite 1)) (Finite 100))
           \<and> (sorted (map fst df_view) \<longrightarrow> (\<forall>r \<in> set df_view. fst r \<le> fst (last df_view)))"
proof -
  let ?vals = "map snd df_view"
  let ?s = "\<lparr>last_value = snd (last df_view),
             percent_change = fmul (last (pct_change ?vals)) (Finite 100),
             row_count = length df_view\<rparr>"
  have run: "main_quick_stats df_view = Inr ?s"
    by (rule main_quick_stats_run [OF assms])
  have one: "percent_change ?s = NaN" if "length df_view = 1"
  proof -
    from that obtain r where "df_view = [r]" by (cases df_view) auto
    then show ?thesis by (simp add: pct_change_single fmul_def)
  qed
  have two: "percent_change ?s
               = fmul (fsub (fdiv (snd (last df_view)) (snd (df_view ! (length df_view - 2))))
                         (Finite 1)) (Finite 100)"
    if "2 \<le> length df_view \<and> snd (last df_view) \<noteq> NaN
          \<and> snd (df_view ! (length df_view - 2)) \<noteq> NaN"
  proof -
    from that have n: "2 \<le> length ?vals" by simp
    have l: "?vals ! (length ?vals - 1) = snd (last df_view)"
      using assms by (simp add: last_conv_nth)
    have "length df_view - 2 < length df_view"
      using that by arith
    then have p: "?vals ! (length ?vals - 2) = snd (df_view ! (length df_view - 2))"
      by (simp add: nth_map)
    have "ffill ?vals ! (length ?vals - 1) = ?vals ! (length ?vals - 1)"
      using that l n by (intro ffill_nth) auto
    moreover have "ffill ?vals ! (length ?vals - 2) = ?vals ! (length ?vals - 2)"
      using that p n by (intro ffill_nth) auto
    ultimately have "last (pct_change ?vals)
        = fsub (fdiv (snd (last df_view)) (snd (df_view ! (length df_view - 2)))) (Finite 1)"
      using pct_change_last [OF n] l p by simp
    then show ?thesis by simp
  qed
  have srt: "\<forall>r \<in> set df_view. fst r \<le> fst (last df_view)" if "sorted (map fst df_view)"
    using that assms sorted_last_max [of "map fst df_view"] by (auto simp: last_map)
  show ?thesis
  proof (intro exI [of _ ?s] conjI impI)
    show "main_quick_stats df_view = Inr ?s" by (rule run)
    show "last_value ?s = snd (last df_view)" by simp
    show "row_count ?s = length df_view" by simp
    show "percent_change ?s = NaN" if "length df_view = 1" using that by (rule one)
    show "percent_change ?s
               = fmul (fsub (fdiv (snd (last df_view)) (snd (df_view ! (length df_view - 2))))
                         (Finite 1)) (Finite 100)"
      if "2 \<le> length df_view \<and> snd (last df_view) \<noteq> NaN
          \<and> snd (df_view ! (length df_view - 2)) \<noteq> NaN"
      using that by (rule two)
    show "\<forall>r \<in> set df_view. fst r \<le> fst (last df_view)" if "sorted (map fst df_view)"
      using that by (rule srt)
  qed
qed

theorem quick_stats_values_witness:
  "[((2020, 1, 1), Finite 5)] \<noteq> ([] :: (date \<times> fval) list)
   \<and> main_quick_stats [((2020, 1, 1) :: date, Finite 5)]
       = Inr \<lparr>last_value = Finite 5, percent_change = NaN, row_count = 1\<rparr>
   \<and> main_quick_stats [((2020, 1, 1) :: date, Finite 4), ((2020, 1, 2), Finite 5)]
       = Inr \<lparr>last_value = Finite 5, percent_change = Finite 25, row_count = 2\<rparr>"
proof -
  have a: "[((2020, 1, 1), Finite 5)] \<noteq> ([] :: (date \<times> fval) list)" by simp
  have b: "[((2020, 1, 1), Finite 4), ((2020, 1, 2), Finite 5)] \<noteq> ([] :: (date \<times> fval) list)"
    by simp
  from quick_stats_values [OF a] obtain s where
    s: "main_quick_stats [((2020, 1, 1) :: date, Finite 5)] = Inr s" "last_value s = Finite 5"
       "row_count s = 1" "percent_change s = NaN"
    by auto
  have one: "main_quick_stats [((2020, 1, 1) :: date, Finite 5)]
       = Inr \<lparr>last_value = Finite 5, percent_change = NaN, row_count = 1\<rparr>"
    using s by (cases s) simp
  from quick_stats_values [OF b] obtain u where
    u: "main_quick_stats [((2020, 1, 1) :: date, Finite 4), ((2020, 1, 2), Finite 5)] = Inr u"
       "last_value u = Finite 5" "row_count u = 2"
       "percent_change u = fmul (fsub (fdiv (Finite 5) (Finite 4)) (Finite 1)) (Finite 100)"
    by auto
  have "fmul (fsub (fdiv (Finite 5) (Finite 4)) (Finite 1)) (Finite 100) = Finite 25"
    by (simp add: float_defs)
  with u have two: "main_quick_stats [((2020, 1, 1) :: date, Finite 4), ((2020, 1, 2), Finite 5)]
       = Inr \<lparr>last_value = Finite 5, percent_change = Finite 25, row_count = 2\<rparr>"
    by (cases u) simp
  from a one two show ?thesis by blast
qed

text \<open>
  C5 as stated fails. On the values 5.0 and 6.0 the code gives the float next below 20,
  19.999999999999996, where \<open>100 \<times> (last - previous) / previous\<close> is 20: the two
  expressions agree as rational numbers and differ once each operation is rounded.
\<close>

theorem quick_stats_formula_counterexample:
  "main_quick_stats [((2020, 1, 1) :: date, Finite 5), ((2020, 1, 2), Finite 6)]
     = Inr \<lparr>last_value = Finite 6,
            percent_change = Finite (5629499534213119 / 281474976710656), row_count = 2\<rparr>
   \<and> fdiv (fmul (Finite 100) (fsub (Finite 6) (Finite 5))) (Finite 5) = Finite 20
   \<and> Finite (5629499534213119 / 281474976710656) \<noteq> Finite 20"
proof (intro conjI)
  have "fmul (fsub (fdiv (Finite 6) (Finite 5)) (Finite 1)) (Finite 100)
          = Finite (5629499534213119 / 281474976710656)"
    by (simp add: float_defs)
  then show "main_quick_stats [((2020, 1, 1) :: date, Finite 5), ((2020, 1, 2), Finite 6)]
     = Inr \<lparr>last_value = Finite 6,
            percent_change = Finite (5629499534213119 / 281474976710656), row_count = 2\<rparr>"
    by (simp add: main_quick_stats_def iloc_last_def then_do_def pct_change_def ffill_def)
  show "fdiv (fmul (Finite 100) (fsub (Finite 6) (Finite 5))) (Finite 5) = Finite 20"
    by (simp add: float_defs)
  show "Finite (5629499534213119 / 281474976710656) \<noteq> Finite 20"
    by simp
qed

text \<open>
  C1. On the empty view \<open>df_view["Value"].iloc[-1]\<close> raises \<open>IndexError\<close>: the quick
  stats have no guard for a view without rows, and no \<open>EmptyViewError\<close> is raised.
\<close>

theorem quick_stats_empty_view:
  "main_quick_stats ([] :: (date \<times> fval) list)
     = Inl (Raised ''IndexError'' ''single positional indexer is out-of-bounds'')
   \<and> main_quick_stats ([] :: (date \<times> fval) list) \<noteq> Inl (Raised ''EmptyViewError'' msg)
   \<and> main_quick_stats (main_filter (2021, 1, 1) (2021, 12, 31) [((2020, 1, 1), Finite 10)])
     = Inl (Raised ''IndexError'' ''single positional indexer is out-of-bounds'')"
  by (simp add: main_quick_stats_def iloc_last_def then_do_def main_filter_def Let_def
      index_ge_def index_le_def mask_and_def loc_mask_def pd_to_datetime_def less_eq_prod_def)

subsection \<open>Facts about the download\<close>

lemma download_raises:
  assumes "index_dtype (index df_view) \<noteq> Datetime64"
  shows "\<exists>e. main_download lib options df_view = Inl e"
proof -
  have "main_monthly lib df_view = Inl (Raised ''TypeError'' resample_type_error)"
    using assms by (simp add: main_monthly_def resample_raises)
  then show ?thesis
    by (auto simp: main_download_def then_do_def split: sum.splits)
qed

text \<open>
  C9. No text is exported on any view the program builds, so there is nothing to parse
  back: before line 173, \<open>main\<close> computes the monthly mean of the same view, and that
  raises \<open>TypeError\<close> on every index the loaders build (on the empty view line 157
  raises first). \<open>main_download\<close> never returns a text.
\<close>

theorem download_not_reached:
  assumes "\<forall>t raw. read_csv t = Inr raw \<longrightarrow> index raw = RangeIndex"
      and "load_csv_auto read_csv to_datetime text = Inr df
           \<or> main_load_uploaded read_csv to_datetime text = Inr df"
      and "main_select_value df = Inr selected"
      and "main_view to_datetime options selected = Inr df_view"
  shows "(\<exists>e. main_download lib options df_view = Inl e)
         \<and> (\<forall>csv. main_download lib options df_view \<noteq> Inr csv)"
proof -
  have k: "index_dtype (index df_view) \<noteq> Datetime64"
    using assms(1) by (intro view_index_kind [OF _ assms(2) assms(3) assms(4)]) blast
  from download_raises [OF k] obtain e where "main_download lib options df_view = Inl e"
    by blast
  then show ?thesis by simp
qed

theorem download_not_reached_witness:
  "load_csv_auto example_read_csv timestamps_of
     ''Date,Value\<newline>2020-01-01,1.5\<newline>2020-01-02,2.5\<newline>''
     = Inr \<lparr>index = Labels ''Date'' Object [DateObj (2020, 1, 1), DateObj (2020, 1, 2)],
            cols = [\<lparr>cname = ''Value'', dtype = Float64, cells = [Number (3/2), Number (5/2)]\<rparr>]\<rparr>
   \<and> main_download example_library
       \<lparr>date_range = ((2020, 1, 1), (2020, 1, 2)), show_table = True, chart_type = ''Line'',
        smoothing = False, rolling_window = None, resample_freq = ''None'',
        show_hist = False, show_box = False\<rparr>
       \<lparr>index = Labels ''Date'' Object [DateObj (2020, 1, 1), DateObj (2020, 1, 2)],
        cols = [\<lparr>cname = ''Value'', dtype = Float64, cells = [Number (3/2), Number (5/2)]\<rparr>]\<rparr>
     = Inl (Raised ''TypeError''
         ''Only valid with DatetimeIndex, TimedeltaIndex or PeriodIndex'')"
proof -
  let ?view = "\<lparr>index = Labels ''Date'' Object [DateObj (2020, 1, 1), DateObj (2020, 1, 2)],
            cols = [\<lparr>cname = ''Value'', dtype = Float64, cells = [Number (3/2), Number (5/2)]\<rparr>]\<rparr>"
  let ?options = "\<lparr>date_range = ((2020, 1, 1), (2020, 1, 2)), show_table = True,
        chart_type = ''Line'', smoothing = False, rolling_window = None,
        resample_freq = ''None'', show_hist = False, show_box = False\<rparr>"
  have l: "load_csv_auto example_read_csv timestamps_of
     ''Date,Value\<newline>2020-01-01,1.5\<newline>2020-01-02,2.5\<newline>'' = Inr ?view
     \<or> main_load_uploaded example_read_csv timestamps_of
     ''Date,Value\<newline>2020-01-01,1.5\<newline>2020-01-02,2.5\<newline>'' = Inr ?view"
    using example_view(1) by simp
  from download_not_reached [OF example_read_csv_index l example_view(2) example_view(3),
      of example_library]
  obtain e where e: "main_download example_library ?options ?view = Inl e"
    by blast
  have ts: "main_time_series example_library ?options ?view = Inr (?view, None)"
    by (simp add: main_time_series_def main_rolling_def then_do_def)
  have "main_quick_stats
          (zip (index_cells ?view) (map cell_float [Number (3/2), Number (5/2)]))
          = Inr \<lparr>last_value = snd (last (zip (index_cells ?view)
                                   (map cell_float [Number (3/2), Number (5/2)]))),
                 percent_change = fmul (last (pct_change (map snd (zip (index_cells ?view)
                                   (map cell_float [Number (3/2), Number (5/2)]))))) (Finite 100),
                 row_count = length (zip (index_cells ?view)
                                   (map cell_float [Number (3/2), Number (5/2)]))\<rparr>"
    by (rule main_quick_stats_run) (simp add: index_cells_def)
  then obtain s where qs: "main_quick_stats_view ?view = Inr s"
    by (simp add: main_quick_stats_view_def getitem_def columns_named_def is_numeric_def
        then_do_def)
  have mm: "main_monthly example_library ?view
     = Inl (Raised ''TypeError''
         ''Only valid with DatetimeIndex, TimedeltaIndex or PeriodIndex'')"
    by (simp add: main_monthly_def pd_resample_mean_def resample_type_error_def)
  have "main_download example_library ?options ?view
     = Inl (Raised ''TypeError''
         ''Only valid with DatetimeIndex, TimedeltaIndex or PeriodIndex'')"
    using e ts qs mm by (simp add: main_download_def then_do_def)
  with example_view(1) show ?thesis by simp
qed

end
